theory Spec2Isabelle
  imports Complex_Main "HOL-Library.Sublist" "HOL-Library.AList"
begin

section \<open>The rich-menu API client (richMenuClient.js) and its configuration (config.js)\<close>

text \<open>
  The client is JavaScript on Node. Its functions are embedded as HOL functions with
  the same names. What the JavaScript runtime supplies (the global \<open>fetch\<close>, \<open>JSON\<close>,
  \<open>path\<close>, \<open>fs\<close>, string conversion) is not code of the repository: it is collected in
  the record \<open>runtime\<close> and every function of the client takes it as its first argument,
  so every theorem below holds for every behaviour of these built-ins.

  Strings are \<open>char list\<close>. The source's messages are Traditional Chinese; they are
  written here as their UTF-8 bytes. The source never takes the length of a string or
  indexes into one: it compares, concatenates and searches them, which does not depend
  on the encoding.
\<close>

subsection \<open>JavaScript values\<close>

type_synonym bytes = "char list"

text \<open>
  The values that \<open>JSON.parse\<close> produces, and \<open>undefined\<close> (the result of reading a
  property that is absent). A finite IEEE double is a rational number; \<open>-0\<close> behaves
  as \<open>0\<close> wherever this module looks at a number.
\<close>

datatype jsval =
    JUndefined
  | JNull
  | JBool bool
  | JNum rat
  | JStr string
  | JArr "jsval list"
  | JObj "(string \<times> jsval) list"

text \<open>\<open>ToBoolean\<close>, which \<open>!x\<close> and \<open>x || y\<close> apply.\<close>

fun truthy :: "jsval \<Rightarrow> bool" where
  "truthy JUndefined = False"
| "truthy JNull = False"
| "truthy (JBool b) = b"
| "truthy (JNum x) = (x \<noteq> 0)"
| "truthy (JStr s) = (s \<noteq> [])"
| "truthy (JArr xs) = True"
| "truthy (JObj kvs) = True"

text \<open>\<open>a || b\<close>\<close>

definition js_or :: "jsval \<Rightarrow> jsval \<Rightarrow> jsval" where
  "js_or a b = (if truthy a then a else b)"

definition nullish :: "jsval \<Rightarrow> bool" where
  "nullish v = (v = JUndefined \<or> v = JNull)"

text \<open>
  Reading a property of a value that is neither \<open>null\<close> nor \<open>undefined\<close>. The module
  reads only the properties \<open>message\<close>, \<open>error\<close>, \<open>richmenus\<close> and \<open>aliases\<close>, which
  no built-in prototype defines: an object has them when it has them as a key, every
  other value gives \<open>undefined\<close>.
\<close>

definition own_field :: "jsval \<Rightarrow> string \<Rightarrow> jsval" where
  "own_field v k =
     (case v of
        JObj kvs \<Rightarrow> (case map_of kvs k of Some x \<Rightarrow> x | None \<Rightarrow> JUndefined)
      | _ \<Rightarrow> JUndefined)"

text \<open>\<open>v?.k\<close>\<close>

definition opt_field :: "jsval \<Rightarrow> string \<Rightarrow> jsval" where
  "opt_field v k = (if nullish v then JUndefined else own_field v k)"

subsection \<open>Errors\<close>

text \<open>
  \<open>RichMenuApiError\<close> is the module's own error class (message, statusCode, details).
  The other constructors are what the runtime throws: \<open>TypeError\<close> (a property read on
  \<open>null\<close>, a body read twice, a failed \<open>fetch\<close>), \<open>SyntaxError\<close> (\<open>JSON.parse\<close>),
  \<open>SystemError\<close> (a failed file read).
\<close>

datatype error =
    RichMenuApiError string nat jsval
  | TypeError
  | SyntaxError
  | SystemError

text \<open>\<open>v.k\<close>, which throws on \<open>null\<close> and \<open>undefined\<close>.\<close>

definition get_field :: "jsval \<Rightarrow> string \<Rightarrow> error + jsval" where
  "get_field v k = (if nullish v then Inl TypeError else Inr (own_field v k))"

text \<open>
  The constructor \<open>constructor(message, statusCode, details = {})\<close>: the default applies
  when the third argument is \<open>undefined\<close>.
\<close>

definition new_RichMenuApiError :: "string \<Rightarrow> nat \<Rightarrow> jsval \<Rightarrow> error" where
  "new_RichMenuApiError msg code d =
     RichMenuApiError msg code (if d = JUndefined then JObj [] else d)"

subsection \<open>Strings\<close>

text \<open>\<open>s.includes(sub)\<close>\<close>

primrec str_includes :: "string \<Rightarrow> string \<Rightarrow> bool" where
  "str_includes [] sub = (sub = [])"
| "str_includes (c # cs) sub = (prefix sub (c # cs) \<or> str_includes cs sub)"

text \<open>The decimal digits of a non-negative integer, as a template literal prints it.\<close>

fun show_nat :: "nat \<Rightarrow> string" where
  "show_nat n =
     (if n < 10 then [''0123456789'' ! n]
      else show_nat (n div 10) @ [''0123456789'' ! (n mod 10)])"

declare show_nat.simps [simp del]

text \<open>
  \<open>(len / 1024 / 1024).toFixed(2)\<close>. The quotient is exact in a double; \<open>toFixed(2)\<close>
  takes the integer \<open>n\<close> nearest to one hundred times the value, the larger one at a tie,
  and prints \<open>n\<close> with two decimals.
\<close>

definition toFixed2_MB :: "nat \<Rightarrow> string" where
  "toFixed2_MB len =
     (let n = (200 * len + 1048576) div 2097152
      in show_nat (n div 100) @ ''.'' @ show_nat (n mod 100 div 10) @ show_nat (n mod 10))"

subsection \<open>The messages of the source\<close>

definition msg_no_token :: string where
  "msg_no_token =
     [CHR 0xE5, CHR 0xB0, CHR 0x9A, CHR 0xE6, CHR 0x9C, CHR 0xAA, CHR 0xE8, CHR 0xA8,
     CHR 0xAD, CHR 0xE5, CHR 0xAE, CHR 0x9A] @ '' Channel Access Token'' @ [CHR 0xE3,
     CHR 0x80, CHR 0x82, CHR 0xE8, CHR 0xAB, CHR 0x8B, CHR 0xE5, CHR 0x85, CHR 0x88,
     CHR 0xE9, CHR 0x80, CHR 0x8F, CHR 0xE9, CHR 0x81, CHR 0x8E, CHR 0xE7, CHR 0x92,
     CHR 0xB0, CHR 0xE5, CHR 0xA2, CHR 0x83, CHR 0xE8, CHR 0xAE, CHR 0x8A, CHR 0xE6,
     CHR 0x95, CHR 0xB8, CHR 0xE6, CHR 0x88, CHR 0x96] @ '' setAccessToken() '' @ [CHR 0xE8,
     CHR 0xA8, CHR 0xAD, CHR 0xE5, CHR 0xAE, CHR 0x9A, CHR 0xE3, CHR 0x80, CHR 0x82]"

definition msg_400_prefix :: string where
  "msg_400_prefix =
     [CHR 0xE8, CHR 0xAB, CHR 0x8B, CHR 0xE6, CHR 0xB1, CHR 0x82, CHR 0xE5, CHR 0x8F,
     CHR 0x83, CHR 0xE6, CHR 0x95, CHR 0xB8, CHR 0xE9, CHR 0x8C, CHR 0xAF, CHR 0xE8,
     CHR 0xAA, CHR 0xA4, CHR 0xEF, CHR 0xBC, CHR 0x9A]"

definition msg_401 :: string where
  "msg_401 =
     ''Channel Access Token '' @ [CHR 0xE7, CHR 0x84, CHR 0xA1, CHR 0xE6, CHR 0x95, CHR 0x88,
     CHR 0xE6, CHR 0x88, CHR 0x96, CHR 0xE5, CHR 0xB7, CHR 0xB2, CHR 0xE9, CHR 0x81,
     CHR 0x8E, CHR 0xE6, CHR 0x9C, CHR 0x9F, CHR 0xEF, CHR 0xBC, CHR 0x8C, CHR 0xE8,
     CHR 0xAB, CHR 0x8B, CHR 0xE9, CHR 0x87, CHR 0x8D, CHR 0xE6, CHR 0x96, CHR 0xB0,
     CHR 0xE5, CHR 0x8F, CHR 0x96, CHR 0xE5, CHR 0xBE, CHR 0x97, CHR 0xE3, CHR 0x80,
     CHR 0x82]"

definition msg_403 :: string where
  "msg_403 =
     [CHR 0xE6, CHR 0xAC, CHR 0x8A, CHR 0xE9, CHR 0x99, CHR 0x90, CHR 0xE4, CHR 0xB8,
     CHR 0x8D, CHR 0xE8, CHR 0xB6, CHR 0xB3, CHR 0xEF, CHR 0xBC, CHR 0x8C, CHR 0xE8,
     CHR 0xAB, CHR 0x8B, CHR 0xE7, CHR 0xA2, CHR 0xBA, CHR 0xE8, CHR 0xAA, CHR 0x8D] @
     '' Token '' @ [CHR 0xE7, CHR 0x9A, CHR 0x84, CHR 0xE6, CHR 0xAC, CHR 0x8A, CHR 0xE9,
     CHR 0x99, CHR 0x90, CHR 0xE8, CHR 0xA8, CHR 0xAD, CHR 0xE5, CHR 0xAE, CHR 0x9A,
     CHR 0xE3, CHR 0x80, CHR 0x82]"

definition msg_404 :: string where
  "msg_404 =
     [CHR 0xE6, CHR 0x89, CHR 0xBE, CHR 0xE4, CHR 0xB8, CHR 0x8D, CHR 0xE5, CHR 0x88,
     CHR 0xB0, CHR 0xE6, CHR 0x8C, CHR 0x87, CHR 0xE5, CHR 0xAE, CHR 0x9A, CHR 0xE7,
     CHR 0x9A, CHR 0x84, CHR 0xE8, CHR 0xB3, CHR 0x87, CHR 0xE6, CHR 0xBA, CHR 0x90,
     CHR 0xEF, CHR 0xBC, CHR 0x88] @ ''Rich Menu '' @ [CHR 0xE6, CHR 0x88, CHR 0x96,
     CHR 0xE4, CHR 0xBD, CHR 0xBF, CHR 0xE7, CHR 0x94, CHR 0xA8, CHR 0xE8, CHR 0x80,
     CHR 0x85, CHR 0xEF, CHR 0xBC, CHR 0x89, CHR 0xE3, CHR 0x80, CHR 0x82]"

definition msg_409 :: string where
  "msg_409 =
     [CHR 0xE8, CHR 0xB3, CHR 0x87, CHR 0xE6, CHR 0xBA, CHR 0x90, CHR 0xE8, CHR 0xA1,
     CHR 0x9D, CHR 0xE7, CHR 0xAA, CHR 0x81, CHR 0xEF, CHR 0xBC, CHR 0x8C, CHR 0xE5,
     CHR 0x8F, CHR 0xAF, CHR 0xE8, CHR 0x83, CHR 0xBD, CHR 0xE5, CHR 0xB7, CHR 0xB2,
     CHR 0xE5, CHR 0xAD, CHR 0x98, CHR 0xE5, CHR 0x9C, CHR 0xA8, CHR 0xE7, CHR 0x9B,
     CHR 0xB8, CHR 0xE5, CHR 0x90, CHR 0x8C, CHR 0xE7, CHR 0x9A, CHR 0x84, CHR 0xE5,
     CHR 0x88, CHR 0xA5, CHR 0xE5, CHR 0x90, CHR 0x8D, CHR 0xE3, CHR 0x80, CHR 0x82]"

definition msg_429 :: string where
  "msg_429 =
     ''API '' @ [CHR 0xE5, CHR 0x91, CHR 0xBC, CHR 0xE5, CHR 0x8F, CHR 0xAB, CHR 0xE9,
     CHR 0xA0, CHR 0xBB, CHR 0xE7, CHR 0x8E, CHR 0x87, CHR 0xE8, CHR 0xB6, CHR 0x85,
     CHR 0xE9, CHR 0x99, CHR 0x90, CHR 0xEF, CHR 0xBC, CHR 0x8C, CHR 0xE8, CHR 0xAB,
     CHR 0x8B, CHR 0xE7, CHR 0xA8, CHR 0x8D, CHR 0xE5, CHR 0xBE, CHR 0x8C, CHR 0xE5,
     CHR 0x86, CHR 0x8D, CHR 0xE8, CHR 0xA9, CHR 0xA6, CHR 0xE3, CHR 0x80, CHR 0x82]"

definition msg_fallback_prefix :: string where
  "msg_fallback_prefix =
     ''API '' @ [CHR 0xE5, CHR 0x91, CHR 0xBC, CHR 0xE5, CHR 0x8F, CHR 0xAB, CHR 0xE5,
     CHR 0xA4, CHR 0xB1, CHR 0xE6, CHR 0x95, CHR 0x97] @ '' (HTTP ''"

definition msg_fallback_infix :: string where
  "msg_fallback_infix =
     '')'' @ [CHR 0xEF, CHR 0xBC, CHR 0x9A]"

definition msg_unparsable :: string where
  "msg_unparsable =
     [CHR 0xE7, CHR 0x84, CHR 0xA1, CHR 0xE6, CHR 0xB3, CHR 0x95, CHR 0xE8, CHR 0xA7,
     CHR 0xA3, CHR 0xE6, CHR 0x9E, CHR 0x90, CHR 0xE9, CHR 0x8C, CHR 0xAF, CHR 0xE8,
     CHR 0xAA, CHR 0xA4, CHR 0xE5, CHR 0x85, CHR 0xA7, CHR 0xE5, CHR 0xAE, CHR 0xB9]"

definition msg_file_missing_prefix :: string where
  "msg_file_missing_prefix =
     [CHR 0xE6, CHR 0x89, CHR 0xBE, CHR 0xE4, CHR 0xB8, CHR 0x8D, CHR 0xE5, CHR 0x88,
     CHR 0xB0, CHR 0xE5, CHR 0x9C, CHR 0x96, CHR 0xE7, CHR 0x89, CHR 0x87, CHR 0xE6,
     CHR 0xAA, CHR 0x94, CHR 0xE6, CHR 0xA1, CHR 0x88, CHR 0xEF, CHR 0xBC, CHR 0x9A]"

definition msg_bad_input :: string where
  "msg_bad_input =
     ''imageInput '' @ [CHR 0xE5, CHR 0xBF, CHR 0x85, CHR 0xE9, CHR 0xA0, CHR 0x88, CHR 0xE7,
     CHR 0x82, CHR 0xBA, CHR 0xE6, CHR 0xAA, CHR 0x94, CHR 0xE6, CHR 0xA1, CHR 0x88,
     CHR 0xE8, CHR 0xB7, CHR 0xAF, CHR 0xE5, CHR 0xBE, CHR 0x91, CHR 0xEF, CHR 0xBC,
     CHR 0x88] @ ''string'' @ [CHR 0xEF, CHR 0xBC, CHR 0x89, CHR 0xE6, CHR 0x88, CHR 0x96] @
     '' Buffer''"

definition msg_too_big_prefix :: string where
  "msg_too_big_prefix =
     [CHR 0xE5, CHR 0x9C, CHR 0x96, CHR 0xE7, CHR 0x89, CHR 0x87, CHR 0xE6, CHR 0xAA,
     CHR 0x94, CHR 0xE6, CHR 0xA1, CHR 0x88, CHR 0xE5, CHR 0xA4, CHR 0xA7, CHR 0xE5,
     CHR 0xB0, CHR 0x8F, CHR 0xE8, CHR 0xB6, CHR 0x85, CHR 0xE9, CHR 0x81, CHR 0x8E] @
     '' 1MB '' @ [CHR 0xE9, CHR 0x99, CHR 0x90, CHR 0xE5, CHR 0x88, CHR 0xB6, CHR 0xEF,
     CHR 0xBC, CHR 0x88, CHR 0xE7, CHR 0x9B, CHR 0xAE, CHR 0xE5, CHR 0x89, CHR 0x8D] @ '' ''"

definition msg_too_big_suffix :: string where
  "msg_too_big_suffix =
     '' MB'' @ [CHR 0xEF, CHR 0xBC, CHR 0x89]"

definition msg_download_prefix :: string where
  "msg_download_prefix =
     [CHR 0xE7, CHR 0x84, CHR 0xA1, CHR 0xE6, CHR 0xB3, CHR 0x95, CHR 0xE4, CHR 0xB8,
     CHR 0x8B, CHR 0xE8, CHR 0xBC, CHR 0x89, CHR 0xE5, CHR 0x9C, CHR 0x96, CHR 0xE7,
     CHR 0x89, CHR 0x87, CHR 0xEF, CHR 0xBC, CHR 0x88] @ ''HTTP ''"

definition msg_download_suffix :: string where
  "msg_download_suffix =
     [CHR 0xEF, CHR 0xBC, CHR 0x89]"

definition msg_bulk_link :: string where
  "msg_bulk_link =
     [CHR 0xE6, CHR 0x89, CHR 0xB9, CHR 0xE9, CHR 0x87, CHR 0x8F, CHR 0xE7, CHR 0xB6,
     CHR 0x81, CHR 0xE5, CHR 0xAE, CHR 0x9A, CHR 0xE4, CHR 0xB8, CHR 0x8A, CHR 0xE9,
     CHR 0x99, CHR 0x90, CHR 0xE7, CHR 0x82, CHR 0xBA] @ '' 500 '' @ [CHR 0xE5, CHR 0x80,
     CHR 0x8B, CHR 0xE4, CHR 0xBD, CHR 0xBF, CHR 0xE7, CHR 0x94, CHR 0xA8, CHR 0xE8,
     CHR 0x80, CHR 0x85]"

definition msg_bulk_unlink :: string where
  "msg_bulk_unlink =
     [CHR 0xE6, CHR 0x89, CHR 0xB9, CHR 0xE9, CHR 0x87, CHR 0x8F, CHR 0xE8, CHR 0xA7,
     CHR 0xA3, CHR 0xE9, CHR 0x99, CHR 0xA4, CHR 0xE7, CHR 0xB6, CHR 0x81, CHR 0xE5,
     CHR 0xAE, CHR 0x9A, CHR 0xE4, CHR 0xB8, CHR 0x8A, CHR 0xE9, CHR 0x99, CHR 0x90,
     CHR 0xE7, CHR 0x82, CHR 0xBA] @ '' 500 '' @ [CHR 0xE5, CHR 0x80, CHR 0x8B, CHR 0xE4,
     CHR 0xBD, CHR 0xBF, CHR 0xE7, CHR 0x94, CHR 0xA8, CHR 0xE8, CHR 0x80, CHR 0x85]"

subsection \<open>config.js\<close>

text \<open>
  The fields of \<open>config\<close> that the client reads. \<open>port\<close> belongs to the server and is
  left out. \<open>channelAccessToken\<close> starts as the environment variable
  \<open>LINE_CHANNEL_ACCESS_TOKEN\<close>, or the empty string.
\<close>

record config =
  API_BASE_URL :: string
  DATA_API_BASE_URL :: string
  channelAccessToken :: string
  ALLOWED_SIZES :: "(nat \<times> nat) list"
  ALLOWED_IMAGE_TYPES :: "string list"
  MAX_RETRIES :: nat
  RETRY_BASE_DELAY_MS :: nat

definition initial_config :: "string option \<Rightarrow> config" where
  "initial_config env_token =
     \<lparr> API_BASE_URL = ''https://api.line.me'',
       DATA_API_BASE_URL = ''https://api-data.line.me'',
       channelAccessToken =
         (case env_token of None \<Rightarrow> [] | Some t \<Rightarrow> if t = [] then [] else t),
       ALLOWED_SIZES =
         [(2500, 1686), (2500, 843), (1200, 810), (1200, 405), (800, 540), (800, 270)],
       ALLOWED_IMAGE_TYPES = [''image/png'', ''image/jpeg''],
       MAX_RETRIES = 3,
       RETRY_BASE_DELAY_MS = 1000 \<rparr>"

definition setAccessToken :: "string \<Rightarrow> config \<Rightarrow> config" where
  "setAccessToken token cfg = cfg\<lparr>channelAccessToken := token\<rparr>"

definition getAccessToken :: "config \<Rightarrow> string" where
  "getAccessToken cfg = channelAccessToken cfg"

subsection \<open>Requests, responses and the runtime\<close>

datatype payload = Text string | Binary bytes

text \<open>The second argument of \<open>fetch\<close>; an absent \<open>headers\<close> is the empty list.\<close>

record options =
  http_method :: "string option"
  headers :: "(string \<times> string) list"
  body :: "payload option"

text \<open>
  A response: its status, its \<open>content-type\<close> header (\<open>None\<close> when
  \<open>headers.get\<close> gives \<open>null\<close>) and its body, which has arrived in full. \<open>None\<close> is
  the null body that the Fetch standard gives a response of status 204, 205 or 304.
\<close>

record response =
  status :: nat
  content_type :: "string option"
  resp_body :: "bytes option"

definition ok :: "response \<Rightarrow> bool" where
  "ok r = (200 \<le> status r \<and> status r \<le> 299)"

text \<open>
  What a call leaves behind, in order: each call of \<open>fetch\<close> with its arguments, each
  \<open>delay(ms)\<close>. (\<open>console.warn\<close> is not recorded.)
\<close>

datatype event = Fetch string options | Delay nat

text \<open>
  The built-ins. \<open>fetch\<close> sees the events so far, so a transport may answer the third
  call differently from the first; it may reject (\<open>Inl\<close>).
\<close>

record runtime =
  fetch :: "event list \<Rightarrow> string \<Rightarrow> options \<Rightarrow> error + response"
  JSON_parse :: "string \<Rightarrow> jsval option"
  JSON_stringify :: "jsval \<Rightarrow> string"
  ToString :: "jsval \<Rightarrow> string"
  utf8_decode :: "bytes \<Rightarrow> string"
  path_resolve :: "string \<Rightarrow> string"
  path_extname :: "string \<Rightarrow> string"
  toLowerCase :: "string \<Rightarrow> string"
  existsSync :: "string \<Rightarrow> bool"
  readFileSync :: "string \<Rightarrow> error + bytes"

text \<open>A value inside a template literal: a string is itself.\<close>

definition template :: "runtime \<Rightarrow> jsval \<Rightarrow> string" where
  "template rt v = (case v of JStr s \<Rightarrow> s | _ \<Rightarrow> ToString rt v)"

text \<open>
  Reading a body (Fetch standard, "consume body"): \<open>json()\<close>, \<open>text()\<close> and
  \<open>arrayBuffer()\<close> reject with a \<open>TypeError\<close> when the response has a body that was
  read before, also when that earlier read ended in a parse error. The flag \<open>used\<close>
  says whether the body was read before. A null body reads as empty every time.
\<close>

definition unusable :: "response \<Rightarrow> bool \<Rightarrow> bool" where
  "unusable r used = (resp_body r \<noteq> None \<and> used)"

definition body_bytes :: "response \<Rightarrow> bytes" where
  "body_bytes r = (case resp_body r of None \<Rightarrow> [] | Some b \<Rightarrow> b)"

definition response_text :: "runtime \<Rightarrow> response \<Rightarrow> bool \<Rightarrow> error + string" where
  "response_text rt r used =
     (if unusable r used then Inl TypeError else Inr (utf8_decode rt (body_bytes r)))"

definition response_json :: "runtime \<Rightarrow> response \<Rightarrow> bool \<Rightarrow> error + jsval" where
  "response_json rt r used =
     (if unusable r used then Inl TypeError
      else case JSON_parse rt (utf8_decode rt (body_bytes r)) of
             None \<Rightarrow> Inl SyntaxError
           | Some v \<Rightarrow> Inr v)"

definition response_arrayBuffer :: "response \<Rightarrow> bool \<Rightarrow> error + bytes" where
  "response_arrayBuffer r used =
     (if unusable r used then Inl TypeError else Inr (body_bytes r))"

subsection \<open>richMenuClient.js: the gate, the messages, the dispatch\<close>

definition ensureToken :: "config \<Rightarrow> error + string" where
  "ensureToken cfg =
     (let token = getAccessToken cfg
      in if token = [] \<or> token = ''your_channel_access_token_here''
         then Inl (new_RichMenuApiError msg_no_token 401 JUndefined)
         else Inr token)"

definition getErrorMessage :: "runtime \<Rightarrow> nat \<Rightarrow> jsval \<Rightarrow> string" where
  "getErrorMessage rt st errorBody =
     (let detail =
            js_or (js_or (opt_field errorBody ''message'')
                         (opt_field (opt_field errorBody ''error'') ''message''))
                  (JStr (JSON_stringify rt errorBody));
          messages =
            [(400::nat, msg_400_prefix @ template rt detail),
             (401, msg_401),
             (403, msg_403),
             (404, msg_404),
             (409, msg_409),
             (429, msg_429)];
          fallback =
            msg_fallback_prefix @ show_nat st @ msg_fallback_infix @ template rt detail
      in case map_of messages st of
           Some m \<Rightarrow> if m \<noteq> [] then m else fallback
         | None \<Rightarrow> fallback)"

text \<open>
  \<open>fetchWithRetry(url, options, retryCount = 0)\<close>: the recursion of the source, which
  ends because \<open>retryCount\<close> grows towards \<open>MAX_RETRIES\<close>. The numbers are natural
  numbers; with the values of config.js (3 and 1000) the waits are 1000, 2000 and 4000,
  exact in JavaScript too.
\<close>

function fetchWithRetry ::
  "runtime \<Rightarrow> config \<Rightarrow> string \<Rightarrow> options \<Rightarrow> nat \<Rightarrow> event list
     \<Rightarrow> (error + response) \<times> event list" where
  "fetchWithRetry rt cfg url opts retryCount tr =
     (case fetch rt tr url opts of
        Inl e \<Rightarrow> (Inl e, tr @ [Fetch url opts])
      | Inr response \<Rightarrow>
          if status response = 429 \<and> retryCount < MAX_RETRIES cfg then
            let waitTime = RETRY_BASE_DELAY_MS cfg * 2 ^ retryCount
            in fetchWithRetry rt cfg url opts (retryCount + 1)
                 (tr @ [Fetch url opts, Delay waitTime])
          else (Inr response, tr @ [Fetch url opts]))"
  by pat_completeness auto
termination
  by (relation "measure (\<lambda>(rt, cfg, url, opts, retryCount, tr). MAX_RETRIES cfg - retryCount)")
     auto

declare fetchWithRetry.simps [simp del]

text \<open>
  Object spread \<open>{...base, ...extra}\<close> on string keys: a key of \<open>base\<close> keeps its place
  and takes the value \<open>extra\<close> gives it, a new key goes to the end.
\<close>

definition spread :: "(string \<times> string) list \<Rightarrow> (string \<times> string) list \<Rightarrow> (string \<times> string) list" where
  "spread base extra = fold (\<lambda>(k, v). AList.update k v) extra base"

definition empty_options :: options where
  "empty_options = \<lparr> http_method = None, headers = [], body = None \<rparr>"

text \<open>The object \<open>{ success: true }\<close>.\<close>

definition success_marker :: jsval where
  "success_marker = JObj [(''success'', JBool True)]"

text \<open>
  Lines 127 to 164 of \<open>apiCall\<close>: what it makes of the response that
  \<open>fetchWithRetry\<close> returned. In the error branch \<open>response.text()\<close> runs after
  \<open>response.json()\<close> has read the body, and its rejection is caught by
  \<open>.catch(() => ...)\<close>.
\<close>

definition apiCall_result :: "runtime \<Rightarrow> response \<Rightarrow> error + jsval" where
  "apiCall_result rt response =
     (if status response = 204 then Inr success_marker
      else
        let contentType = (case content_type response of None \<Rightarrow> [] | Some c \<Rightarrow> c)
        in if ok response then
             if str_includes contentType ''application/json'' then response_json rt response False
             else
               case response_text rt response False of
                 Inl e \<Rightarrow> Inl e
               | Inr text \<Rightarrow>
                   if text = ''{}'' \<or> text = [] then Inr success_marker
                   else
                     case JSON_parse rt text of
                       Some v \<Rightarrow> Inr v
                     | None \<Rightarrow> Inr (JObj [(''success'', JBool True), (''raw'', JStr text)])
           else
             let errorBody =
                   (case response_json rt response False of
                      Inr v \<Rightarrow> v
                    | Inl e \<Rightarrow>
                        JObj [(''message'',
                               JStr (case response_text rt response True of
                                       Inr t \<Rightarrow> t
                                     | Inl e' \<Rightarrow> msg_unparsable))])
             in Inl (new_RichMenuApiError
                       (getErrorMessage rt (status response) errorBody)
                       (status response)
                       errorBody))"

text \<open>
  \<open>apiCall(endpoint, options = {}, baseUrl = config.API_BASE_URL)\<close>. The model takes
  the three arguments in full: a caller that leaves one out passes \<open>empty_options\<close>
  or \<open>API_BASE_URL cfg\<close>. Of \<open>options\<close> the callers set \<open>method\<close>, \<open>headers\<close> and
  \<open>body\<close> only.
\<close>

definition apiCall ::
  "runtime \<Rightarrow> config \<Rightarrow> string \<Rightarrow> options \<Rightarrow> string \<Rightarrow> event list
     \<Rightarrow> (error + jsval) \<times> event list" where
  "apiCall rt cfg endpoint opts baseUrl tr =
     (case ensureToken cfg of
        Inl e \<Rightarrow> (Inl e, tr)
      | Inr token \<Rightarrow>
          let url = baseUrl @ endpoint;
              defaultHeaders = [(''Authorization'', ''Bearer '' @ token)];
              mergedOptions = opts\<lparr>headers := spread defaultHeaders (headers opts)\<rparr>
          in case fetchWithRetry rt cfg url mergedOptions 0 tr of
               (Inl e, tr') \<Rightarrow> (Inl e, tr')
             | (Inr response, tr') \<Rightarrow> (apiCall_result rt response, tr'))"

subsection \<open>richMenuClient.js: the exported operations\<close>

text \<open>
  Identifiers (\<open>richMenuId\<close>, \<open>userId\<close>, \<open>richMenuAliasId\<close>) are strings, as the
  source documents them. A request body \<open>JSON.stringify(x)\<close> is the text that the
  runtime's \<open>JSON_stringify\<close> gives.
\<close>

definition json_post :: "string \<Rightarrow> options" where
  "json_post text =
     \<lparr> http_method = Some ''POST'',
       headers = [(''Content-Type'', ''application/json'')],
       body = Some (Text text) \<rparr>"

definition with_method :: "string \<Rightarrow> options" where
  "with_method m = \<lparr> http_method = Some m, headers = [], body = None \<rparr>"

definition listRichMenus ::
  "runtime \<Rightarrow> config \<Rightarrow> event list \<Rightarrow> (error + jsval) \<times> event list" where
  "listRichMenus rt cfg tr =
     (case apiCall rt cfg ''/v2/bot/richmenu/list'' empty_options (API_BASE_URL cfg) tr of
        (Inl e, tr') \<Rightarrow> (Inl e, tr')
      | (Inr result, tr') \<Rightarrow>
          (case get_field result ''richmenus'' of
             Inl e \<Rightarrow> (Inl e, tr')
           | Inr v \<Rightarrow> (Inr (js_or v (JArr [])), tr')))"

definition getRichMenu ::
  "runtime \<Rightarrow> config \<Rightarrow> string \<Rightarrow> event list \<Rightarrow> (error + jsval) \<times> event list" where
  "getRichMenu rt cfg richMenuId tr =
     apiCall rt cfg (''/v2/bot/richmenu/'' @ richMenuId) empty_options (API_BASE_URL cfg) tr"

definition createRichMenu ::
  "runtime \<Rightarrow> config \<Rightarrow> jsval \<Rightarrow> event list \<Rightarrow> (error + jsval) \<times> event list" where
  "createRichMenu rt cfg richMenuData tr =
     apiCall rt cfg ''/v2/bot/richmenu''
       (json_post (JSON_stringify rt richMenuData)) (API_BASE_URL cfg) tr"

definition validateRichMenu ::
  "runtime \<Rightarrow> config \<Rightarrow> jsval \<Rightarrow> event list \<Rightarrow> (error + jsval) \<times> event list" where
  "validateRichMenu rt cfg richMenuData tr =
     apiCall rt cfg ''/v2/bot/richmenu/validate''
       (json_post (JSON_stringify rt richMenuData)) (API_BASE_URL cfg) tr"

definition deleteRichMenu ::
  "runtime \<Rightarrow> config \<Rightarrow> string \<Rightarrow> event list \<Rightarrow> (error + jsval) \<times> event list" where
  "deleteRichMenu rt cfg richMenuId tr =
     apiCall rt cfg (''/v2/bot/richmenu/'' @ richMenuId) (with_method ''DELETE'')
       (API_BASE_URL cfg) tr"

text \<open>
  The first argument of \<open>uploadRichMenuImage\<close>: a \<open>Buffer\<close>, a string (a file path),
  or anything else.
\<close>

datatype image_input = Buffer bytes | Path string | Other

text \<open>The size check of lines 269 to 275.\<close>

definition check_size :: "bytes \<Rightarrow> string \<Rightarrow> error + bytes \<times> string" where
  "check_size imageBuffer contentType =
     (if length imageBuffer > 1024 * 1024 then
        Inl (new_RichMenuApiError
               (msg_too_big_prefix @ toFixed2_MB (length imageBuffer) @ msg_too_big_suffix)
               400 JUndefined)
      else Inr (imageBuffer, contentType))"

text \<open>
  Lines 246 to 275 of \<open>uploadRichMenuImage\<close>: everything before the call of
  \<open>apiCall\<close>. It gives the buffer and the content type to send, or the error thrown.
\<close>

definition uploadRichMenuImage_local ::
  "runtime \<Rightarrow> image_input \<Rightarrow> string \<Rightarrow> error + bytes \<times> string" where
  "uploadRichMenuImage_local rt imageInput contentType =
     (case imageInput of
        Buffer b \<Rightarrow> check_size b contentType
      | Path p \<Rightarrow>
          let absolutePath = path_resolve rt p
          in if \<not> existsSync rt absolutePath then
               Inl (new_RichMenuApiError (msg_file_missing_prefix @ absolutePath) 400 JUndefined)
             else
               case readFileSync rt absolutePath of
                 Inl e \<Rightarrow> Inl e
               | Inr imageBuffer \<Rightarrow>
                   let ext = toLowerCase rt (path_extname rt absolutePath)
                   in check_size imageBuffer
                        (if ext = ''.jpg'' \<or> ext = ''.jpeg'' then ''image/jpeg''
                         else if ext = ''.png'' then ''image/png''
                         else contentType)
      | Other \<Rightarrow> Inl (new_RichMenuApiError msg_bad_input 400 JUndefined))"

text \<open>The third argument is optional: \<open>contentType = 'image/png'\<close>.\<close>

definition uploadRichMenuImage ::
  "runtime \<Rightarrow> config \<Rightarrow> string \<Rightarrow> image_input \<Rightarrow> string option \<Rightarrow> event list
     \<Rightarrow> (error + jsval) \<times> event list" where
  "uploadRichMenuImage rt cfg richMenuId imageInput contentTypeArg tr =
     (let contentType = (case contentTypeArg of None \<Rightarrow> ''image/png'' | Some c \<Rightarrow> c)
      in case uploadRichMenuImage_local rt imageInput contentType of
           Inl e \<Rightarrow> (Inl e, tr)
         | Inr (imageBuffer, contentType') \<Rightarrow>
             apiCall rt cfg (''/v2/bot/richmenu/'' @ richMenuId @ ''/content'')
               \<lparr> http_method = Some ''POST'',
                 headers = [(''Content-Type'', contentType')],
                 body = Some (Binary imageBuffer) \<rparr>
               (DATA_API_BASE_URL cfg) tr)"

definition downloadRichMenuImage ::
  "runtime \<Rightarrow> config \<Rightarrow> string \<Rightarrow> event list \<Rightarrow> (error + bytes) \<times> event list" where
  "downloadRichMenuImage rt cfg richMenuId tr =
     (case ensureToken cfg of
        Inl e \<Rightarrow> (Inl e, tr)
      | Inr token \<Rightarrow>
          let url = DATA_API_BASE_URL cfg @ ''/v2/bot/richmenu/'' @ richMenuId @ ''/content''
          in case fetchWithRetry rt cfg url
                    \<lparr> http_method = None,
                      headers = [(''Authorization'', ''Bearer '' @ token)],
                      body = None \<rparr> 0 tr of
               (Inl e, tr') \<Rightarrow> (Inl e, tr')
             | (Inr response, tr') \<Rightarrow>
                 if \<not> ok response then
                   (Inl (new_RichMenuApiError
                           (msg_download_prefix @ show_nat (status response) @ msg_download_suffix)
                           (status response) JUndefined), tr')
                 else (response_arrayBuffer response False, tr'))"

definition setDefaultRichMenu ::
  "runtime \<Rightarrow> config \<Rightarrow> string \<Rightarrow> event list \<Rightarrow> (error + jsval) \<times> event list" where
  "setDefaultRichMenu rt cfg richMenuId tr =
     apiCall rt cfg (''/v2/bot/user/all/richmenu/'' @ richMenuId) (with_method ''POST'')
       (API_BASE_URL cfg) tr"

definition getDefaultRichMenu ::
  "runtime \<Rightarrow> config \<Rightarrow> event list \<Rightarrow> (error + jsval) \<times> event list" where
  "getDefaultRichMenu rt cfg tr =
     apiCall rt cfg ''/v2/bot/user/all/richmenu'' empty_options (API_BASE_URL cfg) tr"

definition cancelDefaultRichMenu ::
  "runtime \<Rightarrow> config \<Rightarrow> event list \<Rightarrow> (error + jsval) \<times> event list" where
  "cancelDefaultRichMenu rt cfg tr =
     apiCall rt cfg ''/v2/bot/user/all/richmenu'' (with_method ''DELETE'') (API_BASE_URL cfg) tr"

definition linkRichMenuToUser ::
  "runtime \<Rightarrow> config \<Rightarrow> string \<Rightarrow> string \<Rightarrow> event list \<Rightarrow> (error + jsval) \<times> event list" where
  "linkRichMenuToUser rt cfg userId richMenuId tr =
     apiCall rt cfg (''/v2/bot/user/'' @ userId @ ''/richmenu/'' @ richMenuId)
       (with_method ''POST'') (API_BASE_URL cfg) tr"

definition unlinkRichMenuFromUser ::
  "runtime \<Rightarrow> config \<Rightarrow> string \<Rightarrow> event list \<Rightarrow> (error + jsval) \<times> event list" where
  "unlinkRichMenuFromUser rt cfg userId tr =
     apiCall rt cfg (''/v2/bot/user/'' @ userId @ ''/richmenu'') (with_method ''DELETE'')
       (API_BASE_URL cfg) tr"

definition getUserRichMenu ::
  "runtime \<Rightarrow> config \<Rightarrow> string \<Rightarrow> event list \<Rightarrow> (error + jsval) \<times> event list" where
  "getUserRichMenu rt cfg userId tr =
     apiCall rt cfg (''/v2/bot/user/'' @ userId @ ''/richmenu'') empty_options
       (API_BASE_URL cfg) tr"

definition bulkLinkRichMenu ::
  "runtime \<Rightarrow> config \<Rightarrow> string \<Rightarrow> string list \<Rightarrow> event list
     \<Rightarrow> (error + jsval) \<times> event list" where
  "bulkLinkRichMenu rt cfg richMenuId userIds tr =
     (if length userIds > 500 then
        (Inl (new_RichMenuApiError msg_bulk_link 400 JUndefined), tr)
      else
        apiCall rt cfg ''/v2/bot/richmenu/bulk/link''
          (json_post (JSON_stringify rt
             (JObj [(''richMenuId'', JStr richMenuId), (''userIds'', JArr (map JStr userIds))])))
          (API_BASE_URL cfg) tr)"

definition bulkUnlinkRichMenu ::
  "runtime \<Rightarrow> config \<Rightarrow> string list \<Rightarrow> event list \<Rightarrow> (error + jsval) \<times> event list" where
  "bulkUnlinkRichMenu rt cfg userIds tr =
     (if length userIds > 500 then
        (Inl (new_RichMenuApiError msg_bulk_unlink 400 JUndefined), tr)
      else
        apiCall rt cfg ''/v2/bot/richmenu/bulk/unlink''
          (json_post (JSON_stringify rt (JObj [(''userIds'', JArr (map JStr userIds))])))
          (API_BASE_URL cfg) tr)"

definition createRichMenuAlias ::
  "runtime \<Rightarrow> config \<Rightarrow> string \<Rightarrow> string \<Rightarrow> event list \<Rightarrow> (error + jsval) \<times> event list" where
  "createRichMenuAlias rt cfg richMenuAliasId richMenuId tr =
     apiCall rt cfg ''/v2/bot/richmenu/alias''
       (json_post (JSON_stringify rt
          (JObj [(''richMenuAliasId'', JStr richMenuAliasId), (''richMenuId'', JStr richMenuId)])))
       (API_BASE_URL cfg) tr"

definition updateRichMenuAlias ::
  "runtime \<Rightarrow> config \<Rightarrow> string \<Rightarrow> string \<Rightarrow> event list \<Rightarrow> (error + jsval) \<times> event list" where
  "updateRichMenuAlias rt cfg richMenuAliasId richMenuId tr =
     apiCall rt cfg (''/v2/bot/richmenu/alias/'' @ richMenuAliasId)
       (json_post (JSON_stringify rt (JObj [(''richMenuId'', JStr richMenuId)])))
       (API_BASE_URL cfg) tr"

definition getRichMenuAlias ::
  "runtime \<Rightarrow> config \<Rightarrow> string \<Rightarrow> event list \<Rightarrow> (error + jsval) \<times> event list" where
  "getRichMenuAlias rt cfg richMenuAliasId tr =
     apiCall rt cfg (''/v2/bot/richmenu/alias/'' @ richMenuAliasId) empty_options
       (API_BASE_URL cfg) tr"

definition deleteRichMenuAlias ::
  "runtime \<Rightarrow> config \<Rightarrow> string \<Rightarrow> event list \<Rightarrow> (error + jsval) \<times> event list" where
  "deleteRichMenuAlias rt cfg richMenuAliasId tr =
     apiCall rt cfg (''/v2/bot/richmenu/alias/'' @ richMenuAliasId) (with_method ''DELETE'')
       (API_BASE_URL cfg) tr"

definition listRichMenuAliases ::
  "runtime \<Rightarrow> config \<Rightarrow> event list \<Rightarrow> (error + jsval) \<times> event list" where
  "listRichMenuAliases rt cfg tr =
     (case apiCall rt cfg ''/v2/bot/richmenu/alias/list'' empty_options (API_BASE_URL cfg) tr of
        (Inl e, tr') \<Rightarrow> (Inl e, tr')
      | (Inr result, tr') \<Rightarrow>
          (case get_field result ''aliases'' of
             Inl e \<Rightarrow> (Inl e, tr')
           | Inr v \<Rightarrow> (Inr (js_or v (JArr [])), tr')))"

subsection \<open>Every exported operation\<close>

text \<open>
  One constructor for each exported function with its arguments, and \<open>run\<close>, which calls
  it. The operations return a JavaScript value, except \<open>downloadRichMenuImage\<close>, which
  returns a buffer.
\<close>

datatype operation =
    ListRichMenus
  | GetRichMenu string
  | CreateRichMenu jsval
  | ValidateRichMenu jsval
  | DeleteRichMenu string
  | UploadRichMenuImage string image_input "string option"
  | DownloadRichMenuImage string
  | SetDefaultRichMenu string
  | GetDefaultRichMenu
  | CancelDefaultRichMenu
  | LinkRichMenuToUser string string
  | UnlinkRichMenuFromUser string
  | GetUserRichMenu string
  | BulkLinkRichMenu string "string list"
  | BulkUnlinkRichMenu "string list"
  | CreateRichMenuAlias string string
  | UpdateRichMenuAlias string string
  | GetRichMenuAlias string
  | DeleteRichMenuAlias string
  | ListRichMenuAliases

datatype outcome = Value jsval | Bytes bytes

definition as_value :: "(error + jsval) \<times> event list \<Rightarrow> (error + outcome) \<times> event list" where
  "as_value p = (map_sum id Value (fst p), snd p)"

definition as_bytes :: "(error + bytes) \<times> event list \<Rightarrow> (error + outcome) \<times> event list" where
  "as_bytes p = (map_sum id Bytes (fst p), snd p)"

fun run :: "runtime \<Rightarrow> config \<Rightarrow> operation \<Rightarrow> event list \<Rightarrow> (error + outcome) \<times> event list" where
  "run rt cfg ListRichMenus tr = as_value (listRichMenus rt cfg tr)"
| "run rt cfg (GetRichMenu i) tr = as_value (getRichMenu rt cfg i tr)"
| "run rt cfg (CreateRichMenu d) tr = as_value (createRichMenu rt cfg d tr)"
| "run rt cfg (ValidateRichMenu d) tr = as_value (validateRichMenu rt cfg d tr)"
| "run rt cfg (DeleteRichMenu i) tr = as_value (deleteRichMenu rt cfg i tr)"
| "run rt cfg (UploadRichMenuImage i x c) tr = as_value (uploadRichMenuImage rt cfg i x c tr)"
| "run rt cfg (DownloadRichMenuImage i) tr = as_bytes (downloadRichMenuImage rt cfg i tr)"
| "run rt cfg (SetDefaultRichMenu i) tr = as_value (setDefaultRichMenu rt cfg i tr)"
| "run rt cfg GetDefaultRichMenu tr = as_value (getDefaultRichMenu rt cfg tr)"
| "run rt cfg CancelDefaultRichMenu tr = as_value (cancelDefaultRichMenu rt cfg tr)"
| "run rt cfg (LinkRichMenuToUser u i) tr = as_value (linkRichMenuToUser rt cfg u i tr)"
| "run rt cfg (UnlinkRichMenuFromUser u) tr = as_value (unlinkRichMenuFromUser rt cfg u tr)"
| "run rt cfg (GetUserRichMenu u) tr = as_value (getUserRichMenu rt cfg u tr)"
| "run rt cfg (BulkLinkRichMenu i us) tr = as_value (bulkLinkRichMenu rt cfg i us tr)"
| "run rt cfg (BulkUnlinkRichMenu us) tr = as_value (bulkUnlinkRichMenu rt cfg us tr)"
| "run rt cfg (CreateRichMenuAlias a i) tr = as_value (createRichMenuAlias rt cfg a i tr)"
| "run rt cfg (UpdateRichMenuAlias a i) tr = as_value (updateRichMenuAlias rt cfg a i tr)"
| "run rt cfg (GetRichMenuAlias a) tr = as_value (getRichMenuAlias rt cfg a tr)"
| "run rt cfg (DeleteRichMenuAlias a) tr = as_value (deleteRichMenuAlias rt cfg a tr)"
| "run rt cfg ListRichMenuAliases tr = as_value (listRichMenuAliases rt cfg tr)"

section \<open>Notions used to state the properties\<close>


text \<open>The transport calls of a trace, and its waits.\<close>

fun fetches :: "event list \<Rightarrow> (string \<times> options) list" where
  "fetches [] = []"
| "fetches (Fetch u o' # es) = (u, o') # fetches es"
| "fetches (Delay d # es) = fetches es"


text \<open>
  The response that \<open>apiCall\<close> works on: the one that \<open>fetchWithRetry\<close> returns to it,
  when the credential passes the gate and the transport does not reject.
\<close>

definition final_response ::
  "runtime \<Rightarrow> config \<Rightarrow> string \<Rightarrow> options \<Rightarrow> string \<Rightarrow> event list \<Rightarrow> response option" where
  "final_response rt cfg endpoint opts baseUrl tr =
     (case ensureToken cfg of
        Inl e \<Rightarrow> None
      | Inr token \<Rightarrow>
          (case fst (fetchWithRetry rt cfg (baseUrl @ endpoint)
                       (opts\<lparr>headers :=
                          spread [(''Authorization'', ''Bearer '' @ token)] (headers opts)\<rparr>)
                       0 tr) of
             Inl e \<Rightarrow> None
           | Inr r \<Rightarrow> Some r))"

text \<open>
  A runtime for the examples. Its transport answers every request with the response
  \<open>r\<close>; its \<open>JSON.parse\<close> knows four texts and rejects every other; it has one file, and
  one directory, which exists and cannot be read as a file.
\<close>

definition example_parse :: "string \<Rightarrow> jsval option" where
  \<open>example_parse =
     map_of
       [(''{"message":"Not found"}'', JObj [(''message'', JStr ''Not found'')]),
        (''{"richMenuId":"richmenu-1"}'', JObj [(''richMenuId'', JStr ''richmenu-1'')]),
        (''{"aliases":[{"richMenuAliasId":"page-2"}]}'',
           JObj [(''aliases'', JArr [JObj [(''richMenuAliasId'', JStr ''page-2'')]])]),
        (''{}'', JObj [])]\<close>

definition example_runtime :: "response \<Rightarrow> runtime" where
  "example_runtime r =
     \<lparr> fetch = (\<lambda>tr url opts. Inr r),
       JSON_parse = example_parse,
       JSON_stringify = (\<lambda>v. ''JSON''),
       ToString = (\<lambda>v. ''VALUE''),
       utf8_decode = (\<lambda>b. b),
       path_resolve = (\<lambda>p. p),
       path_extname = (\<lambda>p. ''.JPG''),
       toLowerCase = (\<lambda>s. ''.jpg''),
       existsSync = (\<lambda>p. p = ''/img/menu.JPG'' \<or> p = ''/img''),
       readFileSync = (\<lambda>p. if p = ''/img/menu.JPG'' then Inr ''JFIF'' else Inl SystemError) \<rparr>"

definition example_config :: "string \<Rightarrow> config" where
  "example_config token = setAccessToken token (initial_config None)"


definition list_options :: "string \<Rightarrow> options" where
  "list_options token =
     \<lparr> http_method = None, headers = [(''Authorization'', ''Bearer '' @ token)], body = None \<rparr>"

definition ok_plain :: response where
  "ok_plain = \<lparr> status = 200, content_type = Some ''text/plain'', resp_body = Some ''OK'' \<rparr>"

text \<open>The credential is absent: empty, or the placeholder of the sample environment file.\<close>

definition no_credential :: "config \<Rightarrow> bool" where
  "no_credential cfg =
     (channelAccessToken cfg = [] \<or> channelAccessToken cfg = ''your_channel_access_token_here'')"

text \<open>
  The operations with a check of their own before \<open>apiCall\<close>: the image upload (input
  type, file, size) and the two bulk operations (at most 500 user IDs).
\<close>

definition passes_local_validation :: "runtime \<Rightarrow> operation \<Rightarrow> bool" where
  "passes_local_validation rt opn =
     (case opn of
        UploadRichMenuImage i x c \<Rightarrow>
          (case uploadRichMenuImage_local rt x (case c of None \<Rightarrow> ''image/png'' | Some t \<Rightarrow> t) of
             Inl e \<Rightarrow> False
           | Inr p \<Rightarrow> True)
      | BulkLinkRichMenu i us \<Rightarrow> length us \<le> 500
      | BulkUnlinkRichMenu us \<Rightarrow> length us \<le> 500
      | _ \<Rightarrow> True)"

text \<open>The image operations, and the base address each operation is to use.\<close>

definition image_operation :: "operation \<Rightarrow> bool" where
  "image_operation opn =
     (case opn of
        UploadRichMenuImage i x c \<Rightarrow> True
      | DownloadRichMenuImage i \<Rightarrow> True
      | _ \<Rightarrow> False)"

definition base_of :: "config \<Rightarrow> operation \<Rightarrow> string" where
  "base_of cfg opn = (if image_operation opn then DATA_API_BASE_URL cfg else API_BASE_URL cfg)"

definition other_base :: "config \<Rightarrow> operation \<Rightarrow> string" where
  "other_base cfg opn = (if image_operation opn then API_BASE_URL cfg else DATA_API_BASE_URL cfg)"

text \<open>The transport calls that a run adds to the trace \<open>tr\<close> it started with.\<close>

definition new_fetches :: "event list \<Rightarrow> event list \<Rightarrow> (string \<times> options) list" where
  "new_fetches tr tr' = fetches (drop (length tr) tr')"

text \<open>
  A run from \<open>tr\<close> to \<open>tr'\<close> only adds events, each of its requests goes to a path under
  \<open>/v2/bot/\<close> at the address \<open>base\<close>, and it makes a request when it \<open>must\<close>.
\<close>

definition well_addressed :: "string \<Rightarrow> bool \<Rightarrow> event list \<Rightarrow> event list \<Rightarrow> bool" where
  "well_addressed base must tr tr' =
     (take (length tr) tr' = tr
      \<and> list_all (\<lambda>(u, o'). prefix (base @ ''/v2/bot/'') u) (new_fetches tr tr')
      \<and> (must \<longrightarrow> new_fetches tr tr' \<noteq> []))"

text \<open>The decoded text of a response body, and whether its content type names JSON.\<close>

definition body_text :: "runtime \<Rightarrow> response \<Rightarrow> string" where
  "body_text rt r = utf8_decode rt (body_bytes r)"

definition json_content_type :: "response \<Rightarrow> bool" where
  "json_content_type r =
     str_includes (case content_type r of None \<Rightarrow> [] | Some c \<Rightarrow> c) ''application/json''"


text \<open>More responses for the examples.\<close>

definition no_content :: response where
  "no_content = \<lparr> status = 204, content_type = None, resp_body = None \<rparr>"

definition ok_empty_object :: response where
  "ok_empty_object = \<lparr> status = 200, content_type = None, resp_body = Some ''{}'' \<rparr>"

definition ok_created :: response where
  \<open>ok_created =
     \<lparr> status = 200, content_type = Some ''application/json; charset=UTF-8'',
       resp_body = Some ''{"richMenuId":"richmenu-1"}'' \<rparr>\<close>

definition not_found :: response where
  \<open>not_found =
     \<lparr> status = 404, content_type = Some ''application/json'',
       resp_body = Some ''{"message":"Not found"}'' \<rparr>\<close>

definition server_error :: response where
  "server_error =
     \<lparr> status = 500, content_type = Some ''text/plain'',
       resp_body = Some ''Internal Server Error'' \<rparr>"

definition ok_image :: response where
  "ok_image = \<lparr> status = 200, content_type = Some ''image/png'', resp_body = Some ''PNG-DATA'' \<rparr>"


text \<open>
  Four successful responses: the same two bodies, the empty one and one that is not
  JSON, once announced as JSON and once as plain text.
\<close>

definition ok_json_empty :: response where
  "ok_json_empty =
     \<lparr> status = 200, content_type = Some ''application/json'', resp_body = Some [] \<rparr>"

definition ok_json_garbled :: response where
  "ok_json_garbled =
     \<lparr> status = 200, content_type = Some ''application/json; charset=UTF-8'',
       resp_body = Some ''oops'' \<rparr>"

definition ok_text_empty :: response where
  "ok_text_empty = \<lparr> status = 200, content_type = Some ''text/plain'', resp_body = Some [] \<rparr>"

definition ok_text_garbled :: response where
  "ok_text_garbled =
     \<lparr> status = 200, content_type = Some ''text/plain'', resp_body = Some ''oops'' \<rparr>"

section \<open>Auxiliary facts\<close>

subsection \<open>The dispatch\<close>




lemma fetchWithRetry_not_429:
  "fetch rt tr url opts = Inr r \<Longrightarrow> status r \<noteq> 429 \<Longrightarrow>
     fetchWithRetry rt cfg url opts k tr = (Inr r, tr @ [Fetch url opts])"
  by (subst fetchWithRetry.simps) simp

text \<open>
  Whatever the transport does, a dispatch begins with a request, and every request it
  makes is the one it was given.
\<close>

lemma fetchWithRetry_trace:
  "\<exists>evs. snd (fetchWithRetry rt cfg url opts k tr) = tr @ Fetch url opts # evs \<and>
         (\<forall>u o'. Fetch u o' \<in> set evs \<longrightarrow> u = url \<and> o' = opts)"
proof (induction rt cfg url opts k tr rule: fetchWithRetry.induct)
  case (1 rt cfg url opts retryCount tr)
  show ?case
  proof (cases "fetch rt tr url opts")
    case (Inl e)
    then show ?thesis by (subst fetchWithRetry.simps) simp
  next
    case (Inr r)
    show ?thesis
    proof (cases "status r = 429 \<and> retryCount < MAX_RETRIES cfg")
      case True
      from "1.IH" [OF Inr True refl] obtain evs where
        evs: "snd (fetchWithRetry rt cfg url opts (retryCount + 1)
                (tr @ [Fetch url opts, Delay (RETRY_BASE_DELAY_MS cfg * 2 ^ retryCount)])) =
              (tr @ [Fetch url opts, Delay (RETRY_BASE_DELAY_MS cfg * 2 ^ retryCount)]) @
                Fetch url opts # evs"
        and only: "\<forall>u o'. Fetch u o' \<in> set evs \<longrightarrow> u = url \<and> o' = opts"
        by blast
      have "snd (fetchWithRetry rt cfg url opts retryCount tr) =
              tr @ Fetch url opts #
                (Delay (RETRY_BASE_DELAY_MS cfg * 2 ^ retryCount) # Fetch url opts # evs)"
        by (subst fetchWithRetry.simps) (use Inr True evs in simp)
      moreover have "\<forall>u o'. Fetch u o' \<in>
            set (Delay (RETRY_BASE_DELAY_MS cfg * 2 ^ retryCount) # Fetch url opts # evs) \<longrightarrow>
            u = url \<and> o' = opts"
        using only by simp
      ultimately show ?thesis by blast
    next
      case False
      then show ?thesis by (subst fetchWithRetry.simps) (use Inr in auto)
    qed
  qed
qed





lemma apiCall_final:
  "final_response rt cfg endpoint opts baseUrl tr = Some r \<Longrightarrow>
     fst (apiCall rt cfg endpoint opts baseUrl tr) = apiCall_result rt r"
  by (auto simp: final_response_def apiCall_def Let_def split: sum.splits prod.splits)

lemma apiCall_dispatch:
  "ensureToken cfg = Inr token \<Longrightarrow>
   fetchWithRetry rt cfg (baseUrl @ endpoint)
     (opts\<lparr>headers := spread [(''Authorization'', ''Bearer '' @ token)] (headers opts)\<rparr>) 0 tr =
     (Inr r, tr') \<Longrightarrow>
   apiCall rt cfg endpoint opts baseUrl tr = (apiCall_result rt r, tr')"
  by (simp add: apiCall_def)

lemma msg_nonempty:
  "msg_400_prefix \<noteq> []" "msg_401 \<noteq> []" "msg_403 \<noteq> []" "msg_404 \<noteq> []" "msg_409 \<noteq> []" "msg_429 \<noteq> []"
  by (simp_all add: msg_400_prefix_def msg_401_def msg_403_def msg_404_def msg_409_def msg_429_def)

lemma getErrorMessage_table:
  "getErrorMessage rt 401 b = msg_401"
  "getErrorMessage rt 403 b = msg_403"
  "getErrorMessage rt 404 b = msg_404"
  "getErrorMessage rt 409 b = msg_409"
  "getErrorMessage rt 429 b = msg_429"
  by (simp_all add: getErrorMessage_def Let_def msg_nonempty)

lemma ok_429: "status r = 429 \<Longrightarrow> \<not> ok r" "status r = 429 \<Longrightarrow> status r \<noteq> 204"
  by (simp_all add: ok_def)


subsection \<open>The credential gate and the local checks\<close>

lemma ensureToken_no_credential:
  "no_credential cfg \<Longrightarrow> ensureToken cfg = Inl (RichMenuApiError msg_no_token 401 (JObj []))"
  by (auto simp: no_credential_def ensureToken_def getAccessToken_def new_RichMenuApiError_def)

lemma apiCall_no_credential:
  "no_credential cfg \<Longrightarrow>
     apiCall rt cfg endpoint opts baseUrl tr = (Inl (RichMenuApiError msg_no_token 401 (JObj [])), tr)"
  by (simp add: apiCall_def ensureToken_no_credential)

lemma apiCall_trace:
  assumes "ensureToken cfg = Inr token"
  shows "\<exists>evs. snd (apiCall rt cfg endpoint opts baseUrl tr) =
           tr @ Fetch (baseUrl @ endpoint)
                  (opts\<lparr>headers := spread [(''Authorization'', ''Bearer '' @ token)] (headers opts)\<rparr>) # evs
         \<and> (\<forall>u o'. Fetch u o' \<in> set evs \<longrightarrow> u = baseUrl @ endpoint)"
proof -
  let ?o = "opts\<lparr>headers := spread [(''Authorization'', ''Bearer '' @ token)] (headers opts)\<rparr>"
  from fetchWithRetry_trace [of rt cfg "baseUrl @ endpoint" ?o 0 tr] obtain evs where
    evs: "snd (fetchWithRetry rt cfg (baseUrl @ endpoint) ?o 0 tr) = tr @ Fetch (baseUrl @ endpoint) ?o # evs"
    and only: "\<forall>u o'. Fetch u o' \<in> set evs \<longrightarrow> u = baseUrl @ endpoint \<and> o' = ?o"
    by blast
  have "snd (apiCall rt cfg endpoint opts baseUrl tr) =
          snd (fetchWithRetry rt cfg (baseUrl @ endpoint) ?o 0 tr)"
    by (simp add: apiCall_def assms Let_def split: prod.splits sum.splits)
  with evs only show ?thesis by auto
qed

lemma upload_local_Other:
  "uploadRichMenuImage_local rt Other ct = Inl (RichMenuApiError msg_bad_input 400 (JObj []))"
  by (simp add: uploadRichMenuImage_local_def new_RichMenuApiError_def)

lemma upload_local_missing:
  "\<not> existsSync rt (path_resolve rt p) \<Longrightarrow>
     uploadRichMenuImage_local rt (Path p) ct =
       Inl (RichMenuApiError (msg_file_missing_prefix @ path_resolve rt p) 400 (JObj []))"
  by (simp add: uploadRichMenuImage_local_def new_RichMenuApiError_def)

lemma check_size_too_big:
  "length b > 1048576 \<Longrightarrow>
     check_size b ct =
       Inl (RichMenuApiError (msg_too_big_prefix @ toFixed2_MB (length b) @ msg_too_big_suffix)
              400 (JObj []))"
  by (simp add: check_size_def new_RichMenuApiError_def)

lemma check_size_fits: "length b \<le> 1048576 \<Longrightarrow> check_size b ct = Inr (b, ct)"
  by (simp add: check_size_def)

lemma upload_local_Buffer: "uploadRichMenuImage_local rt (Buffer b) ct = check_size b ct"
  by (simp add: uploadRichMenuImage_local_def)

lemma upload_local_file:
  "existsSync rt (path_resolve rt p) \<Longrightarrow> readFileSync rt (path_resolve rt p) = Inr b \<Longrightarrow>
     uploadRichMenuImage_local rt (Path p) ct =
       check_size b
         (let ext = toLowerCase rt (path_extname rt (path_resolve rt p))
          in if ext = ''.jpg'' \<or> ext = ''.jpeg'' then ''image/jpeg''
             else if ext = ''.png'' then ''image/png'' else ct)"
  by (simp add: uploadRichMenuImage_local_def Let_def)

lemma upload_local_error:
  "uploadRichMenuImage_local rt x (case c of None \<Rightarrow> ''image/png'' | Some t \<Rightarrow> t) = Inl e \<Longrightarrow>
     uploadRichMenuImage rt cfg i x c tr = (Inl e, tr)"
  by (simp add: uploadRichMenuImage_def)

lemma upload_local_passed:
  "uploadRichMenuImage_local rt x (case c of None \<Rightarrow> ''image/png'' | Some t \<Rightarrow> t) = Inr (b, ct) \<Longrightarrow>
     uploadRichMenuImage rt cfg i x c tr =
       apiCall rt cfg (''/v2/bot/richmenu/'' @ i @ ''/content'')
         \<lparr> http_method = Some ''POST'', headers = [(''Content-Type'', ct)],
           body = Some (Binary b) \<rparr>
         (DATA_API_BASE_URL cfg) tr"
  by (simp add: uploadRichMenuImage_def)

lemma run_no_credential_passes:
  assumes "no_credential cfg" "passes_local_validation rt opn"
  shows "run rt cfg opn tr = (Inl (RichMenuApiError msg_no_token 401 (JObj [])), tr)"
proof (cases opn)
  case (UploadRichMenuImage i x c)
  with assms(2) obtain b ct where
    "uploadRichMenuImage_local rt x (case c of None \<Rightarrow> ''image/png'' | Some t \<Rightarrow> t) = Inr (b, ct)"
    by (auto simp: passes_local_validation_def split: sum.splits)
  then show ?thesis
    by (simp add: UploadRichMenuImage upload_local_passed apiCall_no_credential [OF assms(1)]
        as_value_def)
next
  case (DownloadRichMenuImage i)
  then show ?thesis
    by (simp add: downloadRichMenuImage_def ensureToken_no_credential [OF assms(1)] as_bytes_def)
next
  case (BulkLinkRichMenu i us)
  with assms(2) show ?thesis
    by (simp add: passes_local_validation_def bulkLinkRichMenu_def
        apiCall_no_credential [OF assms(1)] as_value_def)
next
  case (BulkUnlinkRichMenu us)
  with assms(2) show ?thesis
    by (simp add: passes_local_validation_def bulkUnlinkRichMenu_def
        apiCall_no_credential [OF assms(1)] as_value_def)
qed (simp_all add: apiCall_no_credential [OF assms(1)] as_value_def
      listRichMenus_def getRichMenu_def createRichMenu_def validateRichMenu_def
      deleteRichMenu_def setDefaultRichMenu_def getDefaultRichMenu_def cancelDefaultRichMenu_def
      linkRichMenuToUser_def unlinkRichMenuFromUser_def getUserRichMenu_def
      createRichMenuAlias_def updateRichMenuAlias_def getRichMenuAlias_def
      deleteRichMenuAlias_def listRichMenuAliases_def)

text \<open>
  What the local part of the upload can throw: a \<open>RichMenuApiError\<close> with status code
  400, or the error of a failed read of a file that exists.
\<close>

lemma upload_local_errors:
  assumes "uploadRichMenuImage_local rt x ct = Inl e"
  shows "(\<exists>m. e = RichMenuApiError m 400 (JObj []))
         \<or> (\<exists>p. x = Path p \<and> existsSync rt (path_resolve rt p)
                 \<and> readFileSync rt (path_resolve rt p) = Inl e)"
proof (cases x)
  case (Buffer b)
  with assms show ?thesis
    by (auto simp: uploadRichMenuImage_local_def check_size_def new_RichMenuApiError_def
        split: if_splits)
next
  case (Path p)
  show ?thesis
  proof (cases "existsSync rt (path_resolve rt p)")
    case False
    with assms Path show ?thesis
      by (auto simp: upload_local_missing)
  next
    case True
    show ?thesis
    proof (cases "readFileSync rt (path_resolve rt p)")
      case (Inl e')
      with assms Path True show ?thesis
        by (simp add: uploadRichMenuImage_local_def Let_def)
    next
      case (Inr b)
      from assms Path show ?thesis
        unfolding Path upload_local_file [OF True Inr]
        by (auto simp: check_size_def new_RichMenuApiError_def split: if_splits)
    qed
  qed
next
  case Other
  with assms show ?thesis
    by (auto simp: upload_local_Other)
qed

lemma run_fails_local_error:
  assumes "\<not> passes_local_validation rt opn"
  shows "(\<exists>m. run rt cfg opn tr = (Inl (RichMenuApiError m 400 (JObj [])), tr))
         \<or> (\<exists>i p c e. opn = UploadRichMenuImage i (Path p) c
                \<and> existsSync rt (path_resolve rt p)
                \<and> readFileSync rt (path_resolve rt p) = Inl e
                \<and> run rt cfg opn tr = (Inl e, tr))"
proof (cases opn)
  case (UploadRichMenuImage i x c)
  with assms obtain e where
    e: "uploadRichMenuImage_local rt x (case c of None \<Rightarrow> ''image/png'' | Some t \<Rightarrow> t) = Inl e"
    by (auto simp: passes_local_validation_def split: sum.splits)
  then have res: "run rt cfg opn tr = (Inl e, tr)"
    by (simp add: UploadRichMenuImage upload_local_error as_value_def)
  from upload_local_errors [OF e] show ?thesis
  proof
    assume "\<exists>m. e = RichMenuApiError m 400 (JObj [])"
    with res show ?thesis by auto
  next
    assume "\<exists>p. x = Path p \<and> existsSync rt (path_resolve rt p)
                 \<and> readFileSync rt (path_resolve rt p) = Inl e"
    with res UploadRichMenuImage show ?thesis by auto
  qed
next
  case (BulkLinkRichMenu i us)
  with assms show ?thesis
    by (simp add: passes_local_validation_def bulkLinkRichMenu_def as_value_def
        new_RichMenuApiError_def)
next
  case (BulkUnlinkRichMenu us)
  with assms show ?thesis
    by (simp add: passes_local_validation_def bulkUnlinkRichMenu_def as_value_def
        new_RichMenuApiError_def)
qed (use assms in \<open>simp_all add: passes_local_validation_def\<close>)

lemma credential_cases:
  "no_credential cfg \<or> ensureToken cfg = Inr (channelAccessToken cfg)"
  by (auto simp: no_credential_def ensureToken_def getAccessToken_def Let_def)

lemma spread_content_type:
  "spread [(''Authorization'', a)] [(''Content-Type'', ct)] =
     [(''Authorization'', a), (''Content-Type'', ct)]"
  by (simp add: spread_def)

subsection \<open>Where the requests go\<close>

lemma fetches_set: "(u, o') \<in> set (fetches evs) \<longleftrightarrow> Fetch u o' \<in> set evs"
  by (induction evs rule: fetches.induct) auto

lemma well_addressed_refl: "\<not> must \<Longrightarrow> well_addressed base must tr tr"
  by (simp add: well_addressed_def new_fetches_def)

lemma well_addressed_dispatch:
  assumes "prefix ''/v2/bot/'' ep"
  shows "well_addressed base must tr (snd (fetchWithRetry rt cfg (base @ ep) opts k tr))"
proof -
  from fetchWithRetry_trace [of rt cfg "base @ ep" opts k tr] obtain evs where
    evs: "snd (fetchWithRetry rt cfg (base @ ep) opts k tr) = tr @ Fetch (base @ ep) opts # evs"
    and only: "\<forall>u o'. Fetch u o' \<in> set evs \<longrightarrow> u = base @ ep \<and> o' = opts"
    by blast
  have "prefix (base @ ''/v2/bot/'') u" if "(u, o') \<in> set (fetches evs)" for u o'
  proof -
    from that have "Fetch u o' \<in> set evs" by (simp add: fetches_set)
    with only have "u = base @ ep" by blast
    with assms show ?thesis by simp
  qed
  then have "list_all (\<lambda>(u, o'). prefix (base @ ''/v2/bot/'') u) (fetches evs)"
    by (auto simp: list_all_iff)
  with assms show ?thesis
    by (simp add: well_addressed_def new_fetches_def evs)
qed

lemma well_addressed_apiCall:
  assumes "prefix ''/v2/bot/'' ep" and "must \<longrightarrow> \<not> no_credential cfg"
  shows "well_addressed base must tr (snd (apiCall rt cfg ep opts base tr))"
proof (cases "no_credential cfg")
  case True
  with assms(2) show ?thesis
    by (simp add: apiCall_no_credential well_addressed_refl)
next
  case False
  with credential_cases [of cfg] have tok: "ensureToken cfg = Inr (channelAccessToken cfg)"
    by blast
  have "snd (apiCall rt cfg ep opts base tr) =
          snd (fetchWithRetry rt cfg (base @ ep)
                 (opts\<lparr>headers := spread [(''Authorization'', ''Bearer '' @ channelAccessToken cfg)]
                                      (headers opts)\<rparr>) 0 tr)"
    by (simp add: apiCall_def tok Let_def split: prod.splits sum.splits)
  with well_addressed_dispatch [OF assms(1)] show ?thesis by simp
qed

lemma well_addressed_download:
  "well_addressed (DATA_API_BASE_URL cfg) (\<not> no_credential cfg) tr
     (snd (downloadRichMenuImage rt cfg i tr))"
proof (cases "no_credential cfg")
  case True
  then show ?thesis
    by (simp add: downloadRichMenuImage_def ensureToken_no_credential well_addressed_refl)
next
  case False
  with credential_cases [of cfg] have tok: "ensureToken cfg = Inr (channelAccessToken cfg)"
    by blast
  have "snd (downloadRichMenuImage rt cfg i tr) =
          snd (fetchWithRetry rt cfg (DATA_API_BASE_URL cfg @ ''/v2/bot/richmenu/'' @ i @ ''/content'')
                 \<lparr> http_method = None,
                   headers = [(''Authorization'', ''Bearer '' @ channelAccessToken cfg)],
                   body = None \<rparr> 0 tr)"
    by (simp add: downloadRichMenuImage_def tok Let_def split: prod.splits sum.splits)
  with well_addressed_dispatch [of "''/v2/bot/richmenu/'' @ i @ ''/content''"] show ?thesis by simp
qed

lemma snd_as_value: "snd (as_value p) = snd p"
  by (simp add: as_value_def)

lemma snd_as_bytes: "snd (as_bytes p) = snd p"
  by (simp add: as_bytes_def)

lemma snd_listRichMenus:
  "snd (listRichMenus rt cfg tr) =
     snd (apiCall rt cfg ''/v2/bot/richmenu/list'' empty_options (API_BASE_URL cfg) tr)"
  by (simp add: listRichMenus_def split: prod.splits sum.splits)

lemma snd_listRichMenuAliases:
  "snd (listRichMenuAliases rt cfg tr) =
     snd (apiCall rt cfg ''/v2/bot/richmenu/alias/list'' empty_options (API_BASE_URL cfg) tr)"
  by (simp add: listRichMenuAliases_def split: prod.splits sum.splits)

lemma well_addressed_run:
  "well_addressed (base_of cfg opn) (\<not> no_credential cfg \<and> passes_local_validation rt opn) tr
     (snd (run rt cfg opn tr))"
proof (cases opn)
  case (UploadRichMenuImage i x c)
  show ?thesis
  proof (cases "uploadRichMenuImage_local rt x (case c of None \<Rightarrow> ''image/png'' | Some t \<Rightarrow> t)")
    case (Inl e)
    then show ?thesis
      by (simp add: UploadRichMenuImage snd_as_value upload_local_error
          passes_local_validation_def well_addressed_refl)
  next
    case (Inr p)
    then obtain b ct where
      "uploadRichMenuImage_local rt x (case c of None \<Rightarrow> ''image/png'' | Some t \<Rightarrow> t) = Inr (b, ct)"
      by (cases p) simp
    then show ?thesis
      by (simp add: UploadRichMenuImage snd_as_value upload_local_passed base_of_def
          image_operation_def well_addressed_apiCall)
  qed
next
  case (DownloadRichMenuImage i)
  then show ?thesis
    by (simp add: snd_as_bytes base_of_def image_operation_def passes_local_validation_def
        well_addressed_download)
next
  case (BulkLinkRichMenu i us)
  then show ?thesis
    by (simp add: snd_as_value bulkLinkRichMenu_def base_of_def image_operation_def
        passes_local_validation_def well_addressed_refl well_addressed_apiCall)
next
  case (BulkUnlinkRichMenu us)
  then show ?thesis
    by (simp add: snd_as_value bulkUnlinkRichMenu_def base_of_def image_operation_def
        passes_local_validation_def well_addressed_refl well_addressed_apiCall)
qed (simp_all add: snd_as_value snd_listRichMenus snd_listRichMenuAliases
      base_of_def image_operation_def passes_local_validation_def well_addressed_apiCall
      getRichMenu_def createRichMenu_def validateRichMenu_def
      deleteRichMenu_def setDefaultRichMenu_def getDefaultRichMenu_def cancelDefaultRichMenu_def
      linkRichMenuToUser_def unlinkRichMenuFromUser_def getUserRichMenu_def
      createRichMenuAlias_def updateRichMenuAlias_def getRichMenuAlias_def
      deleteRichMenuAlias_def)

lemma not_both_bases:
  "prefix ''https://api.line.me/v2/bot/'' u \<Longrightarrow> \<not> prefix ''https://api-data.line.me'' u"
  "prefix ''https://api-data.line.me/v2/bot/'' u \<Longrightarrow> \<not> prefix ''https://api.line.me'' u"
  by (auto simp: prefix_def)

subsection \<open>The image upload\<close>

lemma fetchWithRetry_cfg_cong:
  "MAX_RETRIES cfg' = MAX_RETRIES cfg \<Longrightarrow> RETRY_BASE_DELAY_MS cfg' = RETRY_BASE_DELAY_MS cfg \<Longrightarrow>
     fetchWithRetry rt cfg' url opts k tr = fetchWithRetry rt cfg url opts k tr"
proof (induction rt cfg url opts k tr rule: fetchWithRetry.induct)
  case (1 rt cfg url opts retryCount tr)
  show ?case
  proof (cases "fetch rt tr url opts")
    case (Inl e)
    then show ?thesis
      by (subst fetchWithRetry.simps, subst (2) fetchWithRetry.simps) simp
  next
    case (Inr r)
    show ?thesis
    proof (cases "status r = 429 \<and> retryCount < MAX_RETRIES cfg")
      case True
      from "1.IH" [OF Inr True refl "1.prems"] True Inr "1.prems" show ?thesis
        by (subst fetchWithRetry.simps, subst (2) fetchWithRetry.simps) simp
    next
      case False
      with Inr "1.prems" show ?thesis
        by (subst fetchWithRetry.simps, subst (2) fetchWithRetry.simps) auto
    qed
  qed
qed

lemma apiCall_allowed_types:
  "apiCall rt (cfg\<lparr>ALLOWED_IMAGE_TYPES := ts\<rparr>) ep opts base tr = apiCall rt cfg ep opts base tr"
proof -
  have "fetchWithRetry rt (cfg\<lparr>ALLOWED_IMAGE_TYPES := ts\<rparr>) u o' 0 tr =
          fetchWithRetry rt cfg u o' 0 tr" for u o'
    by (rule fetchWithRetry_cfg_cong) simp_all
  then show ?thesis
    by (simp add: apiCall_def ensureToken_def getAccessToken_def Let_def)
qed

lemma download_allowed_types:
  "downloadRichMenuImage rt (cfg\<lparr>ALLOWED_IMAGE_TYPES := ts\<rparr>) i tr = downloadRichMenuImage rt cfg i tr"
proof -
  have "fetchWithRetry rt (cfg\<lparr>ALLOWED_IMAGE_TYPES := ts\<rparr>) u o' 0 tr =
          fetchWithRetry rt cfg u o' 0 tr" for u o'
    by (rule fetchWithRetry_cfg_cong) simp_all
  then show ?thesis
    by (simp add: downloadRichMenuImage_def ensureToken_def getAccessToken_def Let_def)
qed

lemma run_allowed_types:
  "run rt (cfg\<lparr>ALLOWED_IMAGE_TYPES := ts\<rparr>) opn tr = run rt cfg opn tr"
  by (cases opn)
     (simp_all add: apiCall_allowed_types download_allowed_types
       listRichMenus_def getRichMenu_def createRichMenu_def validateRichMenu_def
       deleteRichMenu_def uploadRichMenuImage_def setDefaultRichMenu_def getDefaultRichMenu_def
       cancelDefaultRichMenu_def linkRichMenuToUser_def unlinkRichMenuFromUser_def
       getUserRichMenu_def bulkLinkRichMenu_def bulkUnlinkRichMenu_def createRichMenuAlias_def
       updateRichMenuAlias_def getRichMenuAlias_def deleteRichMenuAlias_def
       listRichMenuAliases_def split: sum.splits prod.splits)


subsection \<open>What apiCall makes of a response\<close>

lemma success_marker_not_nullish: "\<not> nullish success_marker"
  by (simp add: nullish_def success_marker_def)

lemma apiCall_result_204: "status r = 204 \<Longrightarrow> apiCall_result rt r = Inr success_marker"
  by (simp add: apiCall_result_def)

lemma apiCall_result_json:
  "ok r \<Longrightarrow> status r \<noteq> 204 \<Longrightarrow> json_content_type r \<Longrightarrow>
     apiCall_result rt r =
       (case JSON_parse rt (body_text rt r) of None \<Rightarrow> Inl SyntaxError | Some v \<Rightarrow> Inr v)"
  by (simp add: apiCall_result_def json_content_type_def body_text_def response_json_def
      unusable_def)

lemma apiCall_result_text:
  "ok r \<Longrightarrow> status r \<noteq> 204 \<Longrightarrow> \<not> json_content_type r \<Longrightarrow>
     apiCall_result rt r =
       (if body_text rt r = ''{}'' \<or> body_text rt r = [] then Inr success_marker
        else case JSON_parse rt (body_text rt r) of
               Some v \<Rightarrow> Inr v
             | None \<Rightarrow> Inr (JObj [(''success'', JBool True), (''raw'', JStr (body_text rt r))]))"
  by (simp add: apiCall_result_def json_content_type_def body_text_def response_text_def
      unusable_def Let_def split: option.splits)

lemma final_response_example:
  "status r \<noteq> 429 \<Longrightarrow>
     final_response (example_runtime r) (example_config ''token'') endpoint empty_options baseUrl [] =
       Some r"
proof -
  have "fetch (example_runtime r) [] u o' = Inr r" for u o'
    by (simp add: example_runtime_def)
  from fetchWithRetry_not_429 [OF this] show "status r \<noteq> 429 \<Longrightarrow> ?thesis"
    by (simp add: final_response_def example_config_def setAccessToken_def ensureToken_def
        getAccessToken_def)
qed

text \<open>
  The success branches of \<open>apiCall\<close>, for the response \<open>r\<close> on which it works: status
  204, a text that is \<open>{}\<close> or empty under a content type that does not name JSON, a
  body that parses under a content type that names JSON, and a text that does not parse
  under a content type that does not name JSON.
\<close>

lemma success_cases:
  "final_response rt cfg endpoint opts baseUrl tr = Some r \<Longrightarrow>
     (status r = 204 \<longrightarrow>
        fst (apiCall rt cfg endpoint opts baseUrl tr) = Inr success_marker)
   \<and> (ok r \<and> status r \<noteq> 204 \<and> \<not> json_content_type r \<and>
      (body_text rt r = ''{}'' \<or> body_text rt r = []) \<longrightarrow>
        fst (apiCall rt cfg endpoint opts baseUrl tr) = Inr success_marker)
   \<and> success_marker = JObj [(''success'', JBool True)]
   \<and> \<not> nullish success_marker
   \<and> (\<forall>v. ok r \<and> status r \<noteq> 204 \<and> json_content_type r \<and>
          JSON_parse rt (body_text rt r) = Some v \<longrightarrow>
        fst (apiCall rt cfg endpoint opts baseUrl tr) = Inr v)
   \<and> (ok r \<and> status r \<noteq> 204 \<and> \<not> json_content_type r \<and>
      body_text rt r \<noteq> ''{}'' \<and> body_text rt r \<noteq> [] \<and>
      JSON_parse rt (body_text rt r) = None \<longrightarrow>
        fst (apiCall rt cfg endpoint opts baseUrl tr) =
          Inr (JObj [(''success'', JBool True), (''raw'', JStr (body_text rt r))]))"
proof -
  assume "final_response rt cfg endpoint opts baseUrl tr = Some r"
  then have eq: "fst (apiCall rt cfg endpoint opts baseUrl tr) = apiCall_result rt r"
    by (rule apiCall_final)
  show ?thesis
    unfolding eq
    by (intro conjI impI allI)
       (simp_all add: apiCall_result_204 apiCall_result_json apiCall_result_text
          success_marker_not_nullish, simp add: success_marker_def)
qed

lemma success_cases_examples:
  "fst (apiCall (example_runtime no_content) (example_config ''token'')
          ''/v2/bot/richmenu/richmenu-1'' empty_options ''https://api.line.me'' []) =
     Inr (JObj [(''success'', JBool True)])
   \<and> fst (apiCall (example_runtime ok_empty_object) (example_config ''token'')
          ''/v2/bot/richmenu/richmenu-1'' empty_options ''https://api.line.me'' []) =
     Inr (JObj [(''success'', JBool True)])
   \<and> fst (apiCall (example_runtime ok_created) (example_config ''token'')
          ''/v2/bot/richmenu'' empty_options ''https://api.line.me'' []) =
     Inr (JObj [(''richMenuId'', JStr ''richmenu-1'')])
   \<and> fst (apiCall (example_runtime ok_plain) (example_config ''token'')
          ''/v2/bot/richmenu'' empty_options ''https://api.line.me'' []) =
     Inr (JObj [(''success'', JBool True), (''raw'', JStr ''OK'')])"
proof -
  have st: "status no_content \<noteq> 429" "status ok_empty_object \<noteq> 429" "status ok_created \<noteq> 429"
    "status ok_plain \<noteq> 429"
    by (simp_all add: no_content_def ok_empty_object_def ok_created_def ok_plain_def)
  have a: "status no_content = 204"
    by (simp add: no_content_def)
  have b: "ok ok_empty_object \<and> status ok_empty_object \<noteq> 204 \<and> \<not> json_content_type ok_empty_object
      \<and> body_text (example_runtime ok_empty_object) ok_empty_object = ''{}''"
    by (simp add: ok_empty_object_def ok_def json_content_type_def body_text_def body_bytes_def
        example_runtime_def)
  have c: "ok ok_created \<and> status ok_created \<noteq> 204 \<and> json_content_type ok_created
      \<and> JSON_parse (example_runtime ok_created) (body_text (example_runtime ok_created) ok_created) =
          Some (JObj [(''richMenuId'', JStr ''richmenu-1'')])"
    by (simp add: ok_created_def ok_def json_content_type_def body_text_def body_bytes_def
        example_runtime_def example_parse_def)
  have d: "ok ok_plain \<and> status ok_plain \<noteq> 204 \<and> \<not> json_content_type ok_plain
      \<and> body_text (example_runtime ok_plain) ok_plain = ''OK''
      \<and> JSON_parse (example_runtime ok_plain) ''OK'' = None"
    by (simp add: ok_plain_def ok_def json_content_type_def body_text_def body_bytes_def
        example_runtime_def example_parse_def)
  from success_cases [OF final_response_example [OF st(1)]]
       success_cases [OF final_response_example [OF st(2)]]
       success_cases [OF final_response_example [OF st(3)]]
       success_cases [OF final_response_example [OF st(4)]]
  show ?thesis
    using a b c d by simp
qed

lemma not_ok_not_204: "\<not> ok r \<Longrightarrow> status r \<noteq> 204"
  by (auto simp: ok_def)

text \<open>
  The error branch. The details are the parsed body; when the body does not parse they
  are \<open>{ message: t }\<close>, where \<open>t\<close> is the fixed text of the \<open>.catch\<close> handler
  whenever the response has a body, since \<open>json()\<close> has read it.
\<close>

lemma apiCall_result_error:
  "\<not> ok r \<Longrightarrow>
     apiCall_result rt r =
       (let d = (case JSON_parse rt (body_text rt r) of
                   Some v \<Rightarrow> v
                 | None \<Rightarrow>
                     JObj [(''message'',
                            JStr (if resp_body r = None then body_text rt r else msg_unparsable))])
        in Inl (new_RichMenuApiError (getErrorMessage rt (status r) d) (status r) d))"
  by (simp add: apiCall_result_def not_ok_not_204 response_json_def response_text_def unusable_def
      body_text_def Let_def split: option.splits)

lemma getErrorMessage_other:
  "st \<notin> {400, 401, 403, 404, 409, 429} \<Longrightarrow>
     getErrorMessage rt st (JObj [(''message'', JStr m)]) =
       msg_fallback_prefix @ show_nat st @ msg_fallback_infix @
         (if m = [] then JSON_stringify rt (JObj [(''message'', JStr m)]) else m)"
  by (simp add: getErrorMessage_def Let_def opt_field_def own_field_def nullish_def js_or_def
      template_def)

lemma msg_unparsable_nonempty: "msg_unparsable \<noteq> []"
  by (simp add: msg_unparsable_def)

subsection \<open>The image download\<close>

lemma dispatch_example:
  "status r \<noteq> 429 \<Longrightarrow>
     fetchWithRetry (example_runtime r) cfg u o' 0 [] = (Inr r, [Fetch u o'])"
proof -
  have "fetch (example_runtime r) [] u o' = Inr r"
    by (simp add: example_runtime_def)
  from fetchWithRetry_not_429 [OF this] show "status r \<noteq> 429 \<Longrightarrow> ?thesis"
    by simp
qed

lemma example_config_token:
  "ensureToken (example_config ''token'') = Inr ''token''"
  "\<not> no_credential (example_config ''token'')"
  "API_BASE_URL (example_config ''token'') = ''https://api.line.me''"
  "DATA_API_BASE_URL (example_config ''token'') = ''https://api-data.line.me''"
  "channelAccessToken (example_config ''token'') = ''token''"
  by (simp_all add: example_config_def setAccessToken_def ensureToken_def getAccessToken_def
      initial_config_def no_credential_def)

lemma download_dispatch:
  "ensureToken cfg = Inr token \<Longrightarrow>
   fetchWithRetry rt cfg (DATA_API_BASE_URL cfg @ ''/v2/bot/richmenu/'' @ i @ ''/content'')
     (list_options token) 0 tr = (Inr r, tr') \<Longrightarrow>
   downloadRichMenuImage rt cfg i tr =
     (if ok r then Inr (body_bytes r)
      else Inl (RichMenuApiError
                  (msg_download_prefix @ show_nat (status r) @ msg_download_suffix)
                  (status r) (JObj [])),
      tr')"
  by (simp add: downloadRichMenuImage_def list_options_def response_arrayBuffer_def unusable_def
      new_RichMenuApiError_def)

subsection \<open>The list operations\<close>





lemma apiCall_example:
  "status r \<noteq> 429 \<Longrightarrow>
     apiCall (example_runtime r) (example_config ''token'') ep empty_options base [] =
       (apiCall_result (example_runtime r) r, [Fetch (base @ ep) (list_options ''token'')])"
proof -
  have opts: "empty_options\<lparr>headers := spread [(''Authorization'', ''Bearer '' @ ''token'')]
                (headers empty_options)\<rparr> = list_options ''token''"
    by (simp add: list_options_def empty_options_def spread_def)
  assume "status r \<noteq> 429"
  from apiCall_dispatch [OF example_config_token(1), of "example_runtime r" base ep empty_options
      "[]" r, unfolded opts, OF dispatch_example [OF this]]
  show ?thesis .
qed

section \<open>The properties of the specification\<close>

subsection \<open>The retry bound\<close>



subsection \<open>The credential gate\<close>

text \<open>
  C2, as amended. When the credential is empty or the placeholder, no exported
  operation makes a transport call and every one of them throws. For every operation
  whose own local validation passes the error is the \<open>RichMenuApiError\<close> with status
  code 401. An image upload or a bulk operation whose input fails its local check
  throws the error of that check first: a \<open>RichMenuApiError\<close> with status code 400, or,
  for an upload from a path whose file exists and cannot be read, the error of the read.
\<close>

theorem credential_gate:
  "no_credential cfg \<Longrightarrow>
     snd (run rt cfg opn tr) = tr
     \<and> (\<exists>e. fst (run rt cfg opn tr) = Inl e)
     \<and> (passes_local_validation rt opn \<longrightarrow>
          fst (run rt cfg opn tr) = Inl (RichMenuApiError msg_no_token 401 (JObj [])))
     \<and> (\<not> passes_local_validation rt opn \<longrightarrow>
          (\<exists>m. fst (run rt cfg opn tr) = Inl (RichMenuApiError m 400 (JObj [])))
          \<or> (\<exists>i p c e. opn = UploadRichMenuImage i (Path p) c
                 \<and> existsSync rt (path_resolve rt p)
                 \<and> readFileSync rt (path_resolve rt p) = Inl e
                 \<and> fst (run rt cfg opn tr) = Inl e))"
proof (cases "passes_local_validation rt opn")
  case True
  assume "no_credential cfg"
  from run_no_credential_passes [OF this True, of tr] True show ?thesis by simp
next
  case False
  from run_fails_local_error [OF False, of cfg tr] show ?thesis
  proof
    assume "\<exists>m. run rt cfg opn tr = (Inl (RichMenuApiError m 400 (JObj [])), tr)"
    with False show ?thesis by auto
  next
    assume "\<exists>i p c e. opn = UploadRichMenuImage i (Path p) c
                \<and> existsSync rt (path_resolve rt p)
                \<and> readFileSync rt (path_resolve rt p) = Inl e
                \<and> run rt cfg opn tr = (Inl e, tr)"
    then obtain i p c e where "opn = UploadRichMenuImage i (Path p) c"
      "existsSync rt (path_resolve rt p)" "readFileSync rt (path_resolve rt p) = Inl e"
      "run rt cfg opn tr = (Inl e, tr)"
      by blast
    with False show ?thesis by auto
  qed
qed

text \<open>
  C2 as stated fails where a local check comes first. With no credential,
  \<open>bulkLinkRichMenu\<close> with 501 user IDs throws the error with status code 400, not
  the one with 401 (and makes no transport call).
\<close>

theorem credential_gate_counterexample:
  "no_credential (example_config [])
   \<and> run (example_runtime ok_plain) (example_config [])
        (BulkLinkRichMenu ''richmenu-1'' (replicate 501 ''U1'')) [] =
       (Inl (RichMenuApiError msg_bulk_link 400 (JObj [])), [])"
  by (simp add: no_credential_def example_config_def setAccessToken_def bulkLinkRichMenu_def
      new_RichMenuApiError_def as_value_def)

theorem credential_gate_witness:
  "no_credential (example_config [])
   \<and> run (example_runtime ok_plain) (example_config []) ListRichMenus [] =
       (Inl (RichMenuApiError msg_no_token 401 (JObj [])), [])
   \<and> no_credential (example_config ''your_channel_access_token_here'')
   \<and> run (example_runtime ok_plain) (example_config ''your_channel_access_token_here'')
        (DownloadRichMenuImage ''richmenu-1'') [] =
       (Inl (RichMenuApiError msg_no_token 401 (JObj [])), [])
   \<and> run (example_runtime ok_plain) (example_config [])
        (UploadRichMenuImage ''richmenu-1'' (Path ''/img/menu.JPG'') None) [] =
       (Inl (RichMenuApiError msg_no_token 401 (JObj [])), [])
   \<and> snd (run (example_runtime ok_plain) (example_config [])
        (BulkUnlinkRichMenu (replicate 501 ''U1'')) []) = []
   \<and> (\<exists>m. fst (run (example_runtime ok_plain) (example_config [])
        (BulkUnlinkRichMenu (replicate 501 ''U1'')) []) = Inl (RichMenuApiError m 400 (JObj [])))
   \<and> run (example_runtime ok_plain) (example_config [])
        (UploadRichMenuImage ''richmenu-1'' (Path ''/img'') None) [] = (Inl SystemError, [])"
proof -
  let ?rt = "example_runtime ok_plain"
  have a: "no_credential (example_config [])"
    and b: "no_credential (example_config ''your_channel_access_token_here'')"
    by (simp_all add: no_credential_def example_config_def setAccessToken_def)
  have pass: "passes_local_validation ?rt (UploadRichMenuImage ''richmenu-1'' (Path ''/img/menu.JPG'') None)"
    by (simp add: passes_local_validation_def uploadRichMenuImage_local_def check_size_def
        example_runtime_def)
  have fail: "\<not> passes_local_validation ?rt (BulkUnlinkRichMenu (replicate 501 ''U1''))"
    "\<not> passes_local_validation ?rt (UploadRichMenuImage ''richmenu-1'' (Path ''/img'') None)"
    by (simp_all add: passes_local_validation_def uploadRichMenuImage_local_def
        example_runtime_def)
  have rd: "readFileSync ?rt (path_resolve ?rt ''/img'') = Inl SystemError"
    by (simp add: example_runtime_def)
  from credential_gate [OF a, of ?rt ListRichMenus "[]"]
  have 1: "run ?rt (example_config []) ListRichMenus [] =
       (Inl (RichMenuApiError msg_no_token 401 (JObj [])), [])"
    by (simp add: passes_local_validation_def prod_eq_iff)
  from credential_gate [OF b, of ?rt "DownloadRichMenuImage ''richmenu-1''" "[]"]
  have 2: "run ?rt (example_config ''your_channel_access_token_here'')
        (DownloadRichMenuImage ''richmenu-1'') [] =
       (Inl (RichMenuApiError msg_no_token 401 (JObj [])), [])"
    by (simp add: passes_local_validation_def prod_eq_iff)
  from credential_gate [OF a, of ?rt "UploadRichMenuImage ''richmenu-1'' (Path ''/img/menu.JPG'') None" "[]"]
    pass
  have 3: "run ?rt (example_config [])
        (UploadRichMenuImage ''richmenu-1'' (Path ''/img/menu.JPG'') None) [] =
       (Inl (RichMenuApiError msg_no_token 401 (JObj [])), [])"
    by (simp add: prod_eq_iff)
  from credential_gate [OF a, of ?rt "BulkUnlinkRichMenu (replicate 501 ''U1'')" "[]"] fail(1)
  have 4: "snd (run ?rt (example_config []) (BulkUnlinkRichMenu (replicate 501 ''U1'')) []) = []"
    "\<exists>m. fst (run ?rt (example_config []) (BulkUnlinkRichMenu (replicate 501 ''U1'')) []) =
        Inl (RichMenuApiError m 400 (JObj []))"
    by simp_all
  from credential_gate [OF a, of ?rt "UploadRichMenuImage ''richmenu-1'' (Path ''/img'') None" "[]"]
    fail(2)
  have "snd (run ?rt (example_config [])
          (UploadRichMenuImage ''richmenu-1'' (Path ''/img'') None) []) = []"
    and "(\<exists>m. fst (run ?rt (example_config [])
            (UploadRichMenuImage ''richmenu-1'' (Path ''/img'') None) []) =
          Inl (RichMenuApiError m 400 (JObj [])))
       \<or> (\<exists>e. readFileSync ?rt (path_resolve ?rt ''/img'') = Inl e
              \<and> fst (run ?rt (example_config [])
                   (UploadRichMenuImage ''richmenu-1'' (Path ''/img'') None) []) = Inl e)"
    by auto
  then have 5: "run ?rt (example_config [])
        (UploadRichMenuImage ''richmenu-1'' (Path ''/img'') None) [] = (Inl SystemError, [])"
    using rd
    by (auto simp: prod_eq_iff uploadRichMenuImage_def uploadRichMenuImage_local_def
        example_runtime_def as_value_def)
  from a b 1 2 3 4 5 show ?thesis by blast
qed

subsection \<open>The error of a response that is not a success\<close>

text \<open>
  C3. The claim holds but for one case: a response that is not a success and whose body
  is not JSON. The claim says that the details then carry the raw text of the body.
  Here the response has status 500 and the body \<open>Internal Server Error\<close>: the error
  thrown has status code 500 and the generic message with the number 500, but its
  details are \<open>{ message: t }\<close> with \<open>t\<close> the fixed text of the \<open>.catch\<close>
  handler, not the text of the body, because \<open>response.text()\<close> is called after
  \<open>response.json()\<close> has read the body.
\<close>

theorem error_body_text_replaced:
  "apiCall (example_runtime server_error) (example_config ''token'')
     ''/v2/bot/richmenu/list'' empty_options ''https://api.line.me'' [] =
     (Inl (RichMenuApiError
             (msg_fallback_prefix @ ''500'' @ msg_fallback_infix @ msg_unparsable)
             500
             (JObj [(''message'', JStr msg_unparsable)])),
      [Fetch ''https://api.line.me/v2/bot/richmenu/list'' (list_options ''token'')])
   \<and> body_text (example_runtime server_error) server_error = ''Internal Server Error''
   \<and> msg_unparsable \<noteq> ''Internal Server Error''"
proof -
  have tok: "ensureToken (example_config ''token'') = Inr ''token''"
    by (simp add: example_config_def setAccessToken_def ensureToken_def getAccessToken_def)
  have opts: "empty_options\<lparr>headers := spread [(''Authorization'', ''Bearer '' @ ''token'')]
                (headers empty_options)\<rparr> = list_options ''token''"
    by (simp add: list_options_def empty_options_def spread_def)
  have "fetch (example_runtime server_error) [] u o' = Inr server_error" for u o'
    by (simp add: example_runtime_def)
  from fetchWithRetry_not_429 [OF this]
  have run: "fetchWithRetry (example_runtime server_error) (example_config ''token'')
               (''https://api.line.me'' @ ''/v2/bot/richmenu/list'') (list_options ''token'') 0 [] =
             (Inr server_error,
              [Fetch (''https://api.line.me'' @ ''/v2/bot/richmenu/list'') (list_options ''token'')])"
    by (simp add: server_error_def)
  have body_eq: "body_text (example_runtime server_error) server_error = ''Internal Server Error''"
    by (simp add: body_text_def body_bytes_def server_error_def example_runtime_def)
  have parse: "JSON_parse (example_runtime server_error) ''Internal Server Error'' = None"
    by (simp add: example_runtime_def example_parse_def)
  have res: "apiCall_result (example_runtime server_error) server_error =
      Inl (RichMenuApiError
             (msg_fallback_prefix @ ''500'' @ msg_fallback_infix @ msg_unparsable)
             500
             (JObj [(''message'', JStr msg_unparsable)]))"
  proof -
    have "\<not> ok server_error" and "status server_error = 500"
      and "resp_body server_error = Some ''Internal Server Error''"
      by (simp_all add: ok_def server_error_def)
    then show ?thesis
      by (simp add: apiCall_result_error body_eq parse new_RichMenuApiError_def
          getErrorMessage_other msg_unparsable_nonempty show_nat.simps)
  qed
  have "msg_unparsable \<noteq> ''Internal Server Error''"
    by (simp add: msg_unparsable_def)
  with apiCall_dispatch [OF tok, of "example_runtime server_error" "''https://api.line.me''"
      "''/v2/bot/richmenu/list''" empty_options "[]" server_error, unfolded opts, OF run] res body_eq
  show ?thesis by simp
qed

subsection \<open>The value of a successful response\<close>

text \<open>
  C4. The claim holds but for one case: a successful response whose content type names
  JSON and whose body does not parse. The claim says that no successful response is
  thrown as an error, and the source's own comment counts an empty response as a
  success. Here the transport answers status 200 with the content type
  \<open>application/json\<close> and an empty body, and then with the body \<open>oops\<close>: \<open>apiCall\<close>
  throws the \<open>SyntaxError\<close> of \<open>response.json()\<close>, which it calls outside any
  \<open>try\<close>. The same two bodies under the content type \<open>text/plain\<close> give
  \<open>{ success: true }\<close> and \<open>{ success: true, raw: 'oops' }\<close>.
\<close>

theorem json_success_body_thrown:
  "fst (apiCall (example_runtime ok_json_empty) (example_config ''token'')
          ''/v2/bot/user/all/richmenu'' empty_options ''https://api.line.me'' []) =
     Inl SyntaxError
   \<and> fst (apiCall (example_runtime ok_json_garbled) (example_config ''token'')
          ''/v2/bot/user/all/richmenu'' empty_options ''https://api.line.me'' []) =
     Inl SyntaxError
   \<and> fst (apiCall (example_runtime ok_text_empty) (example_config ''token'')
          ''/v2/bot/user/all/richmenu'' empty_options ''https://api.line.me'' []) =
     Inr (JObj [(''success'', JBool True)])
   \<and> fst (apiCall (example_runtime ok_text_garbled) (example_config ''token'')
          ''/v2/bot/user/all/richmenu'' empty_options ''https://api.line.me'' []) =
     Inr (JObj [(''success'', JBool True), (''raw'', JStr ''oops'')])"
proof -
  have st: "status ok_json_empty \<noteq> 429" "status ok_json_garbled \<noteq> 429"
    "status ok_text_empty \<noteq> 429" "status ok_text_garbled \<noteq> 429"
    by (simp_all add: ok_json_empty_def ok_json_garbled_def ok_text_empty_def ok_text_garbled_def)
  have a: "apiCall_result (example_runtime ok_json_empty) ok_json_empty = Inl SyntaxError"
    by (simp add: apiCall_result_def ok_json_empty_def ok_def response_json_def unusable_def
        body_bytes_def example_runtime_def example_parse_def)
  have b: "apiCall_result (example_runtime ok_json_garbled) ok_json_garbled = Inl SyntaxError"
    by (simp add: apiCall_result_def ok_json_garbled_def ok_def response_json_def unusable_def
        body_bytes_def example_runtime_def example_parse_def)
  have c: "apiCall_result (example_runtime ok_text_empty) ok_text_empty =
      Inr (JObj [(''success'', JBool True)])"
    by (simp add: apiCall_result_def ok_text_empty_def ok_def response_text_def unusable_def
        body_bytes_def example_runtime_def success_marker_def)
  have d: "apiCall_result (example_runtime ok_text_garbled) ok_text_garbled =
      Inr (JObj [(''success'', JBool True), (''raw'', JStr ''oops'')])"
    by (simp add: apiCall_result_def ok_text_garbled_def ok_def response_text_def unusable_def
        body_bytes_def example_runtime_def example_parse_def)
  show ?thesis
    unfolding apiCall_example [OF st(1)] apiCall_example [OF st(2)]
      apiCall_example [OF st(3)] apiCall_example [OF st(4)]
    using a b c d by simp
qed

subsection \<open>The image download\<close>

text \<open>
  C5, as amended. \<open>downloadRichMenuImage\<close> passes the same credential gate and sends
  its request through the same \<open>fetchWithRetry\<close> as \<open>apiCall\<close>. For the response
  \<open>r\<close> that the dispatch returns: when \<open>r\<close> is not a success it throws a
  \<open>RichMenuApiError\<close> with the status code of \<open>r\<close>, a message of its own that names
  the status, and empty details (the body of \<open>r\<close> is not read); when \<open>r\<close> is a
  success it returns the bytes of the body as they are.
\<close>

theorem download_normalization:
  "(no_credential cfg \<longrightarrow>
      downloadRichMenuImage rt cfg i tr = (Inl (RichMenuApiError msg_no_token 401 (JObj [])), tr))
   \<and> (\<forall>token r tr'.
        ensureToken cfg = Inr token \<and>
        fetchWithRetry rt cfg (DATA_API_BASE_URL cfg @ ''/v2/bot/richmenu/'' @ i @ ''/content'')
          (list_options token) 0 tr = (Inr r, tr') \<longrightarrow>
        downloadRichMenuImage rt cfg i tr =
          (if ok r then Inr (body_bytes r)
           else Inl (RichMenuApiError
                       (msg_download_prefix @ show_nat (status r) @ msg_download_suffix)
                       (status r) (JObj [])),
           tr'))"
proof (intro conjI impI allI)
  assume "no_credential cfg"
  then show "downloadRichMenuImage rt cfg i tr =
      (Inl (RichMenuApiError msg_no_token 401 (JObj [])), tr)"
    by (simp add: downloadRichMenuImage_def ensureToken_no_credential)
next
  fix token r tr'
  assume "ensureToken cfg = Inr token \<and>
        fetchWithRetry rt cfg (DATA_API_BASE_URL cfg @ ''/v2/bot/richmenu/'' @ i @ ''/content'')
          (list_options token) 0 tr = (Inr r, tr')"
  then have gate: "ensureToken cfg = Inr token"
    and dispatch: "fetchWithRetry rt cfg
          (DATA_API_BASE_URL cfg @ ''/v2/bot/richmenu/'' @ i @ ''/content'')
          (list_options token) 0 tr = (Inr r, tr')"
    by blast+
  from download_dispatch [OF gate dispatch]
  show "downloadRichMenuImage rt cfg i tr =
          (if ok r then Inr (body_bytes r)
           else Inl (RichMenuApiError
                       (msg_download_prefix @ show_nat (status r) @ msg_download_suffix)
                       (status r) (JObj [])),
           tr')" .
qed

text \<open>
  C5 as stated fails on the details. The transport answers the download with status
  404 and the JSON body \<open>{"message":"Not found"}\<close>: the error thrown carries the
  status code 404 and empty details, where \<open>apiCall\<close> on the same response carries
  the parsed body.
\<close>

theorem download_error_counterexample:
  "downloadRichMenuImage (example_runtime not_found) (example_config ''token'') ''richmenu-1'' [] =
     (Inl (RichMenuApiError (msg_download_prefix @ ''404'' @ msg_download_suffix) 404 (JObj [])),
      [Fetch ''https://api-data.line.me/v2/bot/richmenu/richmenu-1/content'' (list_options ''token'')])
   \<and> JSON_parse (example_runtime not_found) (body_text (example_runtime not_found) not_found) =
       Some (JObj [(''message'', JStr ''Not found'')])
   \<and> apiCall_result (example_runtime not_found) not_found =
       Inl (RichMenuApiError msg_404 404 (JObj [(''message'', JStr ''Not found'')]))"
proof -
  have st: "status not_found \<noteq> 429" "status not_found = 404" "\<not> ok not_found"
    by (simp_all add: not_found_def ok_def)
  have parse: "JSON_parse (example_runtime not_found) (body_text (example_runtime not_found) not_found) =
       Some (JObj [(''message'', JStr ''Not found'')])"
    by (simp add: body_text_def body_bytes_def not_found_def example_runtime_def example_parse_def)
  have "apiCall_result (example_runtime not_found) not_found =
       Inl (RichMenuApiError msg_404 404 (JObj [(''message'', JStr ''Not found'')]))"
    by (simp add: apiCall_result_error st parse new_RichMenuApiError_def getErrorMessage_table)
  moreover from download_dispatch [OF example_config_token(1) dispatch_example [OF st(1)],
      of "''richmenu-1''"]
  have "downloadRichMenuImage (example_runtime not_found) (example_config ''token'') ''richmenu-1'' [] =
     (Inl (RichMenuApiError (msg_download_prefix @ ''404'' @ msg_download_suffix) 404 (JObj [])),
      [Fetch ''https://api-data.line.me/v2/bot/richmenu/richmenu-1/content'' (list_options ''token'')])"
    by (simp add: st example_config_token show_nat.simps)
  ultimately show ?thesis using parse by simp
qed

theorem download_normalization_witness:
  "downloadRichMenuImage (example_runtime ok_plain) (example_config [])  ''richmenu-1'' [] =
     (Inl (RichMenuApiError msg_no_token 401 (JObj [])), [])
   \<and> downloadRichMenuImage (example_runtime ok_image) (example_config ''token'') ''richmenu-1'' [] =
     (Inr ''PNG-DATA'',
      [Fetch ''https://api-data.line.me/v2/bot/richmenu/richmenu-1/content'' (list_options ''token'')])
   \<and> downloadRichMenuImage (example_runtime server_error) (example_config ''token'') ''richmenu-1'' [] =
     (Inl (RichMenuApiError (msg_download_prefix @ ''500'' @ msg_download_suffix) 500 (JObj [])),
      [Fetch ''https://api-data.line.me/v2/bot/richmenu/richmenu-1/content'' (list_options ''token'')])"
proof -
  have nc: "no_credential (example_config [])"
    by (simp add: no_credential_def example_config_def setAccessToken_def)
  have st: "status ok_image \<noteq> 429" "status server_error \<noteq> 429"
    by (simp_all add: ok_image_def server_error_def)
  have facts: "ok ok_image" "body_bytes ok_image = ''PNG-DATA''" "\<not> ok server_error"
    "show_nat (status server_error) = ''500''" "status server_error = 500"
    by (simp_all add: ok_def ok_image_def server_error_def body_bytes_def show_nat.simps)
  from download_normalization [of "example_config []" "example_runtime ok_plain" "''richmenu-1''" "[]"]
    download_normalization [of "example_config ''token''" "example_runtime ok_image" "''richmenu-1''" "[]",
      THEN conjunct2, rule_format, OF conjI, OF example_config_token(1) dispatch_example [OF st(1)]]
    download_normalization [of "example_config ''token''" "example_runtime server_error" "''richmenu-1''" "[]",
      THEN conjunct2, rule_format, OF conjI, OF example_config_token(1) dispatch_example [OF st(2)]]
  show ?thesis
    using nc facts by (simp add: example_config_token)
qed

subsection \<open>The local bounds\<close>

text \<open>
  C6. An image buffer of more than 1,048,576 bytes makes \<open>uploadRichMenuImage\<close> throw
  a \<open>RichMenuApiError\<close> with status code 400 and leaves the trace unchanged (no
  transport call); so does a list of more than 500 user IDs for \<open>bulkLinkRichMenu\<close>
  and \<open>bulkUnlinkRichMenu\<close>. With exactly 500 user IDs and a credential, the next
  event of both is the request to the bulk endpoint.
\<close>

theorem local_validation_bounds:
  "(length b > 1048576 \<longrightarrow>
      (\<exists>m. uploadRichMenuImage rt cfg i (Buffer b) c tr =
             (Inl (RichMenuApiError m 400 (JObj [])), tr)))
   \<and> (length us > 500 \<longrightarrow>
        bulkLinkRichMenu rt cfg i us tr = (Inl (RichMenuApiError msg_bulk_link 400 (JObj [])), tr)
        \<and> bulkUnlinkRichMenu rt cfg us tr =
            (Inl (RichMenuApiError msg_bulk_unlink 400 (JObj [])), tr))
   \<and> (length us = 500 \<and> \<not> no_credential cfg \<longrightarrow>
        (\<exists>o1 evs1. snd (bulkLinkRichMenu rt cfg i us tr) =
            tr @ Fetch (API_BASE_URL cfg @ ''/v2/bot/richmenu/bulk/link'') o1 # evs1)
        \<and> (\<exists>o2 evs2. snd (bulkUnlinkRichMenu rt cfg us tr) =
            tr @ Fetch (API_BASE_URL cfg @ ''/v2/bot/richmenu/bulk/unlink'') o2 # evs2))"
proof (intro conjI impI)
  assume "length b > 1048576"
  then have "uploadRichMenuImage_local rt (Buffer b) (case c of None \<Rightarrow> ''image/png'' | Some t \<Rightarrow> t) =
      Inl (RichMenuApiError (msg_too_big_prefix @ toFixed2_MB (length b) @ msg_too_big_suffix)
              400 (JObj []))"
    by (simp add: upload_local_Buffer check_size_too_big)
  from upload_local_error [OF this]
  show "\<exists>m. uploadRichMenuImage rt cfg i (Buffer b) c tr =
             (Inl (RichMenuApiError m 400 (JObj [])), tr)"
    by blast
next
  assume "length us > 500"
  then show "bulkLinkRichMenu rt cfg i us tr =
      (Inl (RichMenuApiError msg_bulk_link 400 (JObj [])), tr)"
    by (simp add: bulkLinkRichMenu_def new_RichMenuApiError_def)
next
  assume "length us > 500"
  then show "bulkUnlinkRichMenu rt cfg us tr =
      (Inl (RichMenuApiError msg_bulk_unlink 400 (JObj [])), tr)"
    by (simp add: bulkUnlinkRichMenu_def new_RichMenuApiError_def)
next
  assume h: "length us = 500 \<and> \<not> no_credential cfg"
  with credential_cases [of cfg] have tok: "ensureToken cfg = Inr (channelAccessToken cfg)"
    by blast
  from h have eq: "bulkLinkRichMenu rt cfg i us tr =
      apiCall rt cfg ''/v2/bot/richmenu/bulk/link''
          (json_post (JSON_stringify rt
             (JObj [(''richMenuId'', JStr i), (''userIds'', JArr (map JStr us))])))
          (API_BASE_URL cfg) tr"
    by (simp add: bulkLinkRichMenu_def)
  from apiCall_trace [OF tok, of rt "''/v2/bot/richmenu/bulk/link''" _ "API_BASE_URL cfg" tr]
  show "\<exists>o1 evs1. snd (bulkLinkRichMenu rt cfg i us tr) =
            tr @ Fetch (API_BASE_URL cfg @ ''/v2/bot/richmenu/bulk/link'') o1 # evs1"
    unfolding eq by blast
next
  assume h: "length us = 500 \<and> \<not> no_credential cfg"
  with credential_cases [of cfg] have tok: "ensureToken cfg = Inr (channelAccessToken cfg)"
    by blast
  from h have eq: "bulkUnlinkRichMenu rt cfg us tr =
      apiCall rt cfg ''/v2/bot/richmenu/bulk/unlink''
          (json_post (JSON_stringify rt (JObj [(''userIds'', JArr (map JStr us))])))
          (API_BASE_URL cfg) tr"
    by (simp add: bulkUnlinkRichMenu_def)
  from apiCall_trace [OF tok, of rt "''/v2/bot/richmenu/bulk/unlink''" _ "API_BASE_URL cfg" tr]
  show "\<exists>o2 evs2. snd (bulkUnlinkRichMenu rt cfg us tr) =
            tr @ Fetch (API_BASE_URL cfg @ ''/v2/bot/richmenu/bulk/unlink'') o2 # evs2"
    unfolding eq by blast
qed

theorem local_validation_bounds_witness:
  "(\<exists>m. uploadRichMenuImage (example_runtime ok_plain) (example_config ''token'') ''richmenu-1''
          (Buffer (replicate 1048577 (CHR 0x00))) (Some ''image/png'') [] =
        (Inl (RichMenuApiError m 400 (JObj [])), []))
   \<and> bulkLinkRichMenu (example_runtime ok_plain) (example_config ''token'') ''richmenu-1''
        (replicate 501 ''U1'') [] =
       (Inl (RichMenuApiError msg_bulk_link 400 (JObj [])), [])
   \<and> bulkUnlinkRichMenu (example_runtime ok_plain) (example_config ''token'')
        (replicate 501 ''U1'') [] =
       (Inl (RichMenuApiError msg_bulk_unlink 400 (JObj [])), [])
   \<and> (\<exists>o1 evs1. snd (bulkLinkRichMenu (example_runtime ok_plain) (example_config ''token'')
          ''richmenu-1'' (replicate 500 ''U1'') []) =
        Fetch ''https://api.line.me/v2/bot/richmenu/bulk/link'' o1 # evs1)
   \<and> (\<exists>o2 evs2. snd (bulkUnlinkRichMenu (example_runtime ok_plain) (example_config ''token'')
          (replicate 500 ''U1'') []) =
        Fetch ''https://api.line.me/v2/bot/richmenu/bulk/unlink'' o2 # evs2)"
proof -
  have cfg: "\<not> no_credential (example_config ''token'')"
    "API_BASE_URL (example_config ''token'') = ''https://api.line.me''"
    by (simp_all add: no_credential_def example_config_def setAccessToken_def initial_config_def)
  from local_validation_bounds
    [of "replicate 1048577 (CHR 0x00)" "example_runtime ok_plain" "example_config ''token''"
        "''richmenu-1''" "Some ''image/png''" "[]" "replicate 501 ''U1''"]
    local_validation_bounds
    [of "[]" "example_runtime ok_plain" "example_config ''token''"
        "''richmenu-1''" None "[]" "replicate 500 ''U1''"]
  show ?thesis
    using cfg by simp
qed

subsection \<open>The two base addresses\<close>

text \<open>
  C7. Whatever the runtime, the configuration and the arguments: an operation only adds
  events to the trace; every request of \<open>uploadRichMenuImage\<close> and of
  \<open>downloadRichMenuImage\<close> goes to a path under \<open>/v2/bot/\<close> at \<open>DATA_API_BASE_URL\<close>,
  every request of each other exported operation to one at \<open>API_BASE_URL\<close>; with a
  credential and valid local input there is such a request; and with the two addresses
  of config.js no request starts with the other address.
\<close>

theorem base_address:
  "take (length tr) (snd (run rt cfg opn tr)) = tr
   \<and> list_all (\<lambda>(u, o'). prefix (base_of cfg opn @ ''/v2/bot/'') u)
        (new_fetches tr (snd (run rt cfg opn tr)))
   \<and> (\<not> no_credential cfg \<and> passes_local_validation rt opn \<longrightarrow>
        new_fetches tr (snd (run rt cfg opn tr)) \<noteq> [])
   \<and> (API_BASE_URL cfg = ''https://api.line.me'' \<and>
      DATA_API_BASE_URL cfg = ''https://api-data.line.me'' \<longrightarrow>
        list_all (\<lambda>(u, o'). \<not> prefix (other_base cfg opn) u)
          (new_fetches tr (snd (run rt cfg opn tr))))"
proof -
  from well_addressed_run [of cfg opn rt tr]
  have ext: "take (length tr) (snd (run rt cfg opn tr)) = tr"
    and to: "list_all (\<lambda>(u, o'). prefix (base_of cfg opn @ ''/v2/bot/'') u)
               (new_fetches tr (snd (run rt cfg opn tr)))"
    and some: "\<not> no_credential cfg \<and> passes_local_validation rt opn \<longrightarrow>
                 new_fetches tr (snd (run rt cfg opn tr)) \<noteq> []"
    by (simp_all add: well_addressed_def)
  have "list_all (\<lambda>(u, o'). \<not> prefix (other_base cfg opn) u)
          (new_fetches tr (snd (run rt cfg opn tr)))"
    if urls: "API_BASE_URL cfg = ''https://api.line.me'' \<and>
        DATA_API_BASE_URL cfg = ''https://api-data.line.me''"
  proof -
    have "\<not> prefix (other_base cfg opn) u"
      if mem: "(u, o') \<in> set (new_fetches tr (snd (run rt cfg opn tr)))" for u o'
    proof -
      from to mem have "prefix (base_of cfg opn @ ''/v2/bot/'') u"
        by (auto simp: list_all_iff)
      with urls show ?thesis
        by (cases "image_operation opn") (simp_all add: base_of_def other_base_def not_both_bases)
    qed
    then show ?thesis by (auto simp: list_all_iff)
  qed
  with ext to some show ?thesis by blast
qed

theorem base_address_witness:
  "new_fetches []
     (snd (run (example_runtime ok_plain) (example_config ''token'')
             (UploadRichMenuImage ''richmenu-1'' (Buffer ''PNG'') None) [])) \<noteq> []
   \<and> list_all (\<lambda>(u, o'). prefix ''https://api-data.line.me/v2/bot/'' u)
       (new_fetches []
          (snd (run (example_runtime ok_plain) (example_config ''token'')
                  (UploadRichMenuImage ''richmenu-1'' (Buffer ''PNG'') None) [])))
   \<and> list_all (\<lambda>(u, o'). \<not> prefix ''https://api.line.me'' u)
       (new_fetches []
          (snd (run (example_runtime ok_plain) (example_config ''token'')
                  (UploadRichMenuImage ''richmenu-1'' (Buffer ''PNG'') None) [])))
   \<and> new_fetches []
       (snd (run (example_runtime ok_plain) (example_config ''token'')
               (GetRichMenu ''richmenu-1'') [])) \<noteq> []
   \<and> list_all (\<lambda>(u, o'). prefix ''https://api.line.me/v2/bot/'' u)
       (new_fetches []
          (snd (run (example_runtime ok_plain) (example_config ''token'')
                  (GetRichMenu ''richmenu-1'') [])))
   \<and> list_all (\<lambda>(u, o'). \<not> prefix ''https://api-data.line.me'' u)
       (new_fetches []
          (snd (run (example_runtime ok_plain) (example_config ''token'')
                  (GetRichMenu ''richmenu-1'') [])))"
proof -
  have cfg: "\<not> no_credential (example_config ''token'')"
    "API_BASE_URL (example_config ''token'') = ''https://api.line.me''"
    "DATA_API_BASE_URL (example_config ''token'') = ''https://api-data.line.me''"
    by (simp_all add: no_credential_def example_config_def setAccessToken_def initial_config_def)
  have loc: "passes_local_validation (example_runtime ok_plain)
               (UploadRichMenuImage ''richmenu-1'' (Buffer ''PNG'') None)"
    "passes_local_validation (example_runtime ok_plain) (GetRichMenu ''richmenu-1'')"
    by (simp_all add: passes_local_validation_def uploadRichMenuImage_local_def check_size_def)
  from base_address [of "[]" "example_runtime ok_plain" "example_config ''token''"
         "UploadRichMenuImage ''richmenu-1'' (Buffer ''PNG'') None"]
       base_address [of "[]" "example_runtime ok_plain" "example_config ''token''"
         "GetRichMenu ''richmenu-1''"]
  show ?thesis
    using cfg loc by (simp add: base_of_def other_base_def image_operation_def)
qed

subsection \<open>The list operations\<close>



subsection \<open>Local validation comes before the gate\<close>

text \<open>
  C9. The checks of \<open>uploadRichMenuImage\<close> (input that is neither a buffer nor a
  string, a path with no file, a buffer of more than 1,048,576 bytes) and of the bulk
  operations (more than 500 user IDs) come before \<open>ensureToken\<close>: for every
  configuration, so also when the credential is empty or the placeholder, the error
  thrown has status code 400 and the trace is unchanged (no transport call).
\<close>

theorem local_validation_precedes_gate:
  "uploadRichMenuImage rt cfg i Other c tr =
     (Inl (RichMenuApiError msg_bad_input 400 (JObj [])), tr)
   \<and> (\<not> existsSync rt (path_resolve rt p) \<longrightarrow>
        uploadRichMenuImage rt cfg i (Path p) c tr =
          (Inl (RichMenuApiError (msg_file_missing_prefix @ path_resolve rt p) 400 (JObj [])), tr))
   \<and> (length b > 1048576 \<longrightarrow>
        uploadRichMenuImage rt cfg i (Buffer b) c tr =
          (Inl (RichMenuApiError
                  (msg_too_big_prefix @ toFixed2_MB (length b) @ msg_too_big_suffix) 400 (JObj [])),
           tr))
   \<and> (length us > 500 \<longrightarrow>
        bulkLinkRichMenu rt cfg i us tr = (Inl (RichMenuApiError msg_bulk_link 400 (JObj [])), tr)
        \<and> bulkUnlinkRichMenu rt cfg us tr =
            (Inl (RichMenuApiError msg_bulk_unlink 400 (JObj [])), tr))"
proof (intro conjI impI)
  show "uploadRichMenuImage rt cfg i Other c tr =
          (Inl (RichMenuApiError msg_bad_input 400 (JObj [])), tr)"
    by (rule upload_local_error) (rule upload_local_Other)
next
  assume "\<not> existsSync rt (path_resolve rt p)"
  then show "uploadRichMenuImage rt cfg i (Path p) c tr =
          (Inl (RichMenuApiError (msg_file_missing_prefix @ path_resolve rt p) 400 (JObj [])), tr)"
    by (intro upload_local_error upload_local_missing)
next
  assume "length b > 1048576"
  then show "uploadRichMenuImage rt cfg i (Buffer b) c tr =
          (Inl (RichMenuApiError
                  (msg_too_big_prefix @ toFixed2_MB (length b) @ msg_too_big_suffix) 400 (JObj [])),
           tr)"
    by (intro upload_local_error) (simp add: upload_local_Buffer check_size_too_big)
next
  assume "length us > 500"
  then show "bulkLinkRichMenu rt cfg i us tr =
      (Inl (RichMenuApiError msg_bulk_link 400 (JObj [])), tr)"
    by (simp add: bulkLinkRichMenu_def new_RichMenuApiError_def)
next
  assume "length us > 500"
  then show "bulkUnlinkRichMenu rt cfg us tr =
      (Inl (RichMenuApiError msg_bulk_unlink 400 (JObj [])), tr)"
    by (simp add: bulkUnlinkRichMenu_def new_RichMenuApiError_def)
qed

theorem local_validation_precedes_gate_witness:
  "no_credential (example_config [])
   \<and> uploadRichMenuImage (example_runtime ok_plain) (example_config []) ''richmenu-1'' Other None [] =
       (Inl (RichMenuApiError msg_bad_input 400 (JObj [])), [])
   \<and> uploadRichMenuImage (example_runtime ok_plain) (example_config []) ''richmenu-1''
        (Path ''/img/none.png'') None [] =
       (Inl (RichMenuApiError (msg_file_missing_prefix @ ''/img/none.png'') 400 (JObj [])), [])
   \<and> uploadRichMenuImage (example_runtime ok_plain) (example_config []) ''richmenu-1''
        (Buffer (replicate 1048577 (CHR 0x00))) None [] =
       (Inl (RichMenuApiError (msg_too_big_prefix @ ''1.00'' @ msg_too_big_suffix) 400 (JObj [])), [])
   \<and> bulkLinkRichMenu (example_runtime ok_plain) (example_config []) ''richmenu-1''
        (replicate 501 ''U1'') [] =
       (Inl (RichMenuApiError msg_bulk_link 400 (JObj [])), [])
   \<and> bulkUnlinkRichMenu (example_runtime ok_plain) (example_config []) (replicate 501 ''U1'') [] =
       (Inl (RichMenuApiError msg_bulk_unlink 400 (JObj [])), [])"
proof -
  have mb: "toFixed2_MB 1048577 = ''1.00''"
    by (simp add: toFixed2_MB_def show_nat.simps)
  have nc: "no_credential (example_config [])"
    by (simp add: no_credential_def example_config_def setAccessToken_def)
  from local_validation_precedes_gate
    [of "example_runtime ok_plain" "example_config []" "''richmenu-1''" None "[]"
        "''/img/none.png''" "replicate 1048577 (CHR 0x00)" "replicate 501 ''U1''"]
  show ?thesis
    using nc by (simp add: example_runtime_def mb)
qed

subsection \<open>The content type of an upload\<close>

text \<open>
  C10. For a buffer that passes the size check, with a credential,
  \<open>uploadRichMenuImage\<close> sends the content type it was given (\<open>image/png\<close> when none
  was given) as the \<open>Content-Type\<close> header of its request, whatever string it is. The
  result of the upload, and of every exported operation, does not depend on
  \<open>ALLOWED_IMAGE_TYPES\<close>. The content type is derived from the file extension only for
  a file path, where it replaces the argument for \<open>.jpg\<close>, \<open>.jpeg\<close> and \<open>.png\<close>.
\<close>

theorem upload_content_type_unchecked:
  "(length b \<le> 1048576 \<and> \<not> no_credential cfg \<longrightarrow>
      (\<exists>evs. snd (uploadRichMenuImage rt cfg i (Buffer b) c tr) =
         tr @ Fetch (DATA_API_BASE_URL cfg @ ''/v2/bot/richmenu/'' @ i @ ''/content'')
                \<lparr> http_method = Some ''POST'',
                  headers = [(''Authorization'', ''Bearer '' @ channelAccessToken cfg),
                             (''Content-Type'', case c of None \<Rightarrow> ''image/png'' | Some t \<Rightarrow> t)],
                  body = Some (Binary b) \<rparr> # evs))
   \<and> uploadRichMenuImage rt (cfg\<lparr>ALLOWED_IMAGE_TYPES := ts\<rparr>) i x c tr =
       uploadRichMenuImage rt cfg i x c tr
   \<and> (existsSync rt (path_resolve rt p) \<and> readFileSync rt (path_resolve rt p) = Inr b \<and>
      length b \<le> 1048576 \<longrightarrow>
        uploadRichMenuImage_local rt (Path p) ct =
          Inr (b, let ext = toLowerCase rt (path_extname rt (path_resolve rt p))
                  in if ext = ''.jpg'' \<or> ext = ''.jpeg'' then ''image/jpeg''
                     else if ext = ''.png'' then ''image/png'' else ct))
   \<and> run rt (cfg\<lparr>ALLOWED_IMAGE_TYPES := ts\<rparr>) opn tr = run rt cfg opn tr"
proof (intro conjI impI)
  assume h: "length b \<le> 1048576 \<and> \<not> no_credential cfg"
  let ?ct = "case c of None \<Rightarrow> ''image/png'' | Some t \<Rightarrow> t"
  from h credential_cases [of cfg] have tok: "ensureToken cfg = Inr (channelAccessToken cfg)"
    by blast
  from h have "uploadRichMenuImage_local rt (Buffer b) ?ct = Inr (b, ?ct)"
    by (simp add: upload_local_Buffer check_size_fits)
  from upload_local_passed [OF this]
  have eq: "uploadRichMenuImage rt cfg i (Buffer b) c tr =
      apiCall rt cfg (''/v2/bot/richmenu/'' @ i @ ''/content'')
         \<lparr> http_method = Some ''POST'', headers = [(''Content-Type'', ?ct)],
           body = Some (Binary b) \<rparr>
         (DATA_API_BASE_URL cfg) tr" .
  from apiCall_trace [OF tok, of rt "''/v2/bot/richmenu/'' @ i @ ''/content''"
      "\<lparr> http_method = Some ''POST'', headers = [(''Content-Type'', ?ct)], body = Some (Binary b) \<rparr>"
      "DATA_API_BASE_URL cfg" tr]
  show "\<exists>evs. snd (uploadRichMenuImage rt cfg i (Buffer b) c tr) =
         tr @ Fetch (DATA_API_BASE_URL cfg @ ''/v2/bot/richmenu/'' @ i @ ''/content'')
                \<lparr> http_method = Some ''POST'',
                  headers = [(''Authorization'', ''Bearer '' @ channelAccessToken cfg),
                             (''Content-Type'', ?ct)],
                  body = Some (Binary b) \<rparr> # evs"
    unfolding eq by (auto simp: spread_content_type)
next
  show "uploadRichMenuImage rt (cfg\<lparr>ALLOWED_IMAGE_TYPES := ts\<rparr>) i x c tr =
       uploadRichMenuImage rt cfg i x c tr"
    by (simp add: uploadRichMenuImage_def apiCall_allowed_types split: sum.splits prod.splits)
next
  assume "existsSync rt (path_resolve rt p) \<and> readFileSync rt (path_resolve rt p) = Inr b \<and>
      length b \<le> 1048576"
  then show "uploadRichMenuImage_local rt (Path p) ct =
          Inr (b, let ext = toLowerCase rt (path_extname rt (path_resolve rt p))
                  in if ext = ''.jpg'' \<or> ext = ''.jpeg'' then ''image/jpeg''
                     else if ext = ''.png'' then ''image/png'' else ct)"
    by (simp add: upload_local_file check_size_fits)
next
  show "run rt (cfg\<lparr>ALLOWED_IMAGE_TYPES := ts\<rparr>) opn tr = run rt cfg opn tr"
    by (rule run_allowed_types)
qed

theorem upload_content_type_unchecked_witness:
  "(\<exists>evs. snd (uploadRichMenuImage (example_runtime ok_plain) (example_config ''token'')
               ''richmenu-1'' (Buffer ''GIF89a'') (Some ''image/gif'') []) =
       Fetch ''https://api-data.line.me/v2/bot/richmenu/richmenu-1/content''
         \<lparr> http_method = Some ''POST'',
           headers = [(''Authorization'', ''Bearer token''), (''Content-Type'', ''image/gif'')],
           body = Some (Binary ''GIF89a'') \<rparr> # evs)
   \<and> uploadRichMenuImage_local (example_runtime ok_plain) (Path ''/img/menu.JPG'') ''image/gif'' =
       Inr (''JFIF'', ''image/jpeg'')"
proof -
  have cfg: "\<not> no_credential (example_config ''token'')"
    "channelAccessToken (example_config ''token'') = ''token''"
    "DATA_API_BASE_URL (example_config ''token'') = ''https://api-data.line.me''"
    by (simp_all add: no_credential_def example_config_def setAccessToken_def initial_config_def)
  from upload_content_type_unchecked
         [of "''GIF89a''" "example_config ''token''" "example_runtime ok_plain" "''richmenu-1''"
             "Some ''image/gif''" "[]"]
       upload_content_type_unchecked
         [of "''JFIF''" "example_config ''token''" "example_runtime ok_plain" _ _ _ _ _
             "''/img/menu.JPG''" "''image/gif''"]
  show ?thesis
    using cfg by (simp add: example_runtime_def)
qed

end
